theory Spec2Isabelle
  imports Complex_Main
begin

section \<open>JavaScript numbers and the \<open>Number\<close> conversion of strings\<close>

text \<open>
  A JavaScript \<open>number\<close> is a binary64 value: \<open>NaN\<close>, an infinity, or a finite
  number. The arithmetic of the threat score and of the distance is the arithmetic of
  binary64: every operation returns its exact result rounded to the nearest double, ties
  to even, and overflows to an infinity. \<open>Number\<close> of a string keeps the exact value of
  the digits (its overflow to an infinity is modelled), and so do the counters and the
  day counts, which are small integers. The sign of zero is not modelled; no operation
  below tells the two zeros apart.
\<close>

datatype jsnum = NaN | NegInf | Fin real | PosInf

fun isNaN :: "jsnum \<Rightarrow> bool" where
  "isNaN NaN = True"
| "isNaN _ = False"


text \<open>The relational operator \<open><\<close> on numbers: false as soon as one side is \<open>NaN\<close>.\<close>

fun js_lt :: "jsnum \<Rightarrow> jsnum \<Rightarrow> bool" where
  "js_lt NaN _ = False"
| "js_lt _ NaN = False"
| "js_lt (Fin a) (Fin b) = (a < b)"
| "js_lt NegInf NegInf = False"
| "js_lt NegInf _ = True"
| "js_lt PosInf _ = False"
| "js_lt (Fin _) PosInf = True"
| "js_lt (Fin _) NegInf = False"

text \<open>\<open>Math.min\<close> of two numbers and the binary \<open>-\<close>.\<close>

fun js_min :: "jsnum \<Rightarrow> jsnum \<Rightarrow> jsnum" where
  "js_min NaN _ = NaN"
| "js_min _ NaN = NaN"
| "js_min a b = (if js_lt b a then b else a)"

fun js_sub :: "jsnum \<Rightarrow> jsnum \<Rightarrow> jsnum" where
  "js_sub NaN _ = NaN"
| "js_sub _ NaN = NaN"
| "js_sub (Fin a) (Fin b) = Fin (a - b)"
| "js_sub PosInf PosInf = NaN"
| "js_sub NegInf NegInf = NaN"
| "js_sub PosInf _ = PosInf"
| "js_sub NegInf _ = NegInf"
| "js_sub (Fin _) PosInf = NegInf"
| "js_sub (Fin _) NegInf = PosInf"

text \<open>The relational operator \<open><=\<close>, \<open>Math.max\<close> of two numbers and the unary \<open>-\<close>.\<close>

fun js_le :: "jsnum \<Rightarrow> jsnum \<Rightarrow> bool" where
  "js_le NaN _ = False"
| "js_le _ NaN = False"
| "js_le (Fin a) (Fin b) = (a \<le> b)"
| "js_le NegInf _ = True"
| "js_le PosInf PosInf = True"
| "js_le PosInf _ = False"
| "js_le (Fin _) PosInf = True"
| "js_le (Fin _) NegInf = False"

fun js_max :: "jsnum \<Rightarrow> jsnum \<Rightarrow> jsnum" where
  "js_max NaN _ = NaN"
| "js_max _ NaN = NaN"
| "js_max a b = (if js_lt a b then b else a)"

fun js_neg :: "jsnum \<Rightarrow> jsnum" where
  "js_neg NaN = NaN"
| "js_neg NegInf = PosInf"
| "js_neg PosInf = NegInf"
| "js_neg (Fin a) = Fin (- a)"

text \<open>
  \<open>Number(s)\<close> for a string is ECMAScript's StringToNumber: white space is trimmed,
  the empty string is \<open>0\<close>, then either an unsigned binary, octal or hexadecimal
  integer literal, or an optionally signed \<open>Infinity\<close> or decimal literal with
  optional fraction and exponent; anything else is \<open>NaN\<close>. Strings are taken over
  code units below 256.
\<close>

definition is_js_space :: "char \<Rightarrow> bool" where
  "is_js_space c = (of_char c \<in> {9, 10, 11, 12, 13, 32, 160 :: nat})"

definition js_trim :: "string \<Rightarrow> string" where
  "js_trim s = rev (dropWhile is_js_space (rev (dropWhile is_js_space s)))"

definition is_digit :: "char \<Rightarrow> bool" where
  "is_digit c = (48 \<le> (of_char c :: nat) \<and> (of_char c :: nat) \<le> 57)"

definition hex_val :: "char \<Rightarrow> nat option" where
  "hex_val c =
     (let n = (of_char c :: nat) in
      if 48 \<le> n \<and> n \<le> 57 then Some (n - 48)
      else if 65 \<le> n \<and> n \<le> 70 then Some (n - 55)
      else if 97 \<le> n \<and> n \<le> 102 then Some (n - 87)
      else None)"

definition is_radix_digit :: "nat \<Rightarrow> char \<Rightarrow> bool" where
  "is_radix_digit b c = (case hex_val c of Some v \<Rightarrow> v < b | None \<Rightarrow> False)"

definition digits_val :: "nat \<Rightarrow> string \<Rightarrow> nat" where
  "digits_val b ds = foldl (\<lambda>a c. a * b + (case hex_val c of Some v \<Rightarrow> v | None \<Rightarrow> 0)) 0 ds"

text \<open>The value at which a decimal magnitude rounds to \<open>Infinity\<close>.\<close>

definition double_overflow :: real where
  "double_overflow = 2 ^ 1024 - 2 ^ 970"

definition to_double :: "real \<Rightarrow> jsnum" where
  "to_double v =
     (if double_overflow \<le> v then PosInf
      else if v \<le> - double_overflow then NegInf
      else Fin v)"

definition parse_radix :: "nat \<Rightarrow> string \<Rightarrow> jsnum" where
  "parse_radix b ds =
     (if ds \<noteq> [] \<and> list_all (is_radix_digit b) ds
      then to_double (real (digits_val b ds)) else NaN)"

text \<open>The exponent part after the indicator: an optionally signed run of digits.\<close>

definition parse_exponent :: "string \<Rightarrow> int option" where
  "parse_exponent s =
     (let (neg, ds) =
        (case s of
           c # r \<Rightarrow> if c = CHR ''-'' then (True, r)
                     else if c = CHR ''+'' then (False, r) else (False, s)
         | [] \<Rightarrow> (False, s))
      in if ds \<noteq> [] \<and> list_all is_digit ds
         then Some (if neg then - int (digits_val 10 ds) else int (digits_val 10 ds))
         else None)"

definition pow10 :: "int \<Rightarrow> real" where
  "pow10 e = (if 0 \<le> e then 10 ^ nat e else 1 / 10 ^ nat (- e))"

definition parse_unsigned_decimal :: "string \<Rightarrow> real option" where
  "parse_unsigned_decimal s =
     (let whole = takeWhile is_digit s;
          r1 = dropWhile is_digit s;
          dot = (r1 \<noteq> [] \<and> hd r1 = CHR ''.'');
          frac = (if dot then takeWhile is_digit (tl r1) else []);
          r2 = (if dot then dropWhile is_digit (tl r1) else r1)
      in if whole = [] \<and> frac = [] then None
         else
           (case (if r2 = [] then Some 0
                  else if hd r2 = CHR ''e'' \<or> hd r2 = CHR ''E'' then parse_exponent (tl r2)
                  else None) of
              None \<Rightarrow> None
            | Some e \<Rightarrow>
                Some (real (digits_val 10 (whole @ frac)) * pow10 (e - int (length frac)))))"

definition parse_str_decimal :: "string \<Rightarrow> jsnum" where
  "parse_str_decimal s =
     (let (neg, u) =
        (case s of
           c # r \<Rightarrow> if c = CHR ''-'' then (True, r)
                     else if c = CHR ''+'' then (False, r) else (False, s)
         | [] \<Rightarrow> (False, s))
      in if u = ''Infinity'' then (if neg then NegInf else PosInf)
         else (case parse_unsigned_decimal u of
                 None \<Rightarrow> NaN
               | Some v \<Rightarrow> to_double (if neg then - v else v)))"

definition js_Number :: "string \<Rightarrow> jsnum" where
  "js_Number str =
     (let s = js_trim str in
      if s = [] then Fin 0
      else if take 2 s = ''0x'' \<or> take 2 s = ''0X'' then parse_radix 16 (drop 2 s)
      else if take 2 s = ''0o'' \<or> take 2 s = ''0O'' then parse_radix 8 (drop 2 s)
      else if take 2 s = ''0b'' \<or> take 2 s = ''0B'' then parse_radix 2 (drop 2 s)
      else parse_str_decimal s)"

lemmas js_Number_eval =
  js_Number_def js_trim_def is_js_space_def parse_str_decimal_def parse_unsigned_decimal_def
  parse_exponent_def parse_radix_def is_radix_digit_def is_digit_def digits_val_def
  hex_val_def pow10_def to_double_def double_overflow_def

section \<open>Binary64 arithmetic\<close>

text \<open>
  \<open>fl x\<close> is the double nearest to the real \<open>x\<close>. The binade of a magnitude is the
  exponent \<open>e\<close> with \<open>2^e \<le> x < 2^(e+1)\<close>, kept within \<open>-1022 .. 1023\<close> (below
  \<open>2^-1022\<close> the doubles are subnormal and keep the spacing of the lowest binade); in a
  binade the doubles are the multiples of \<open>2^(e-52)\<close>, and the nearest multiple is
  taken, the even one of two equally near. A magnitude that rounds to \<open>2^1024\<close> is an
  infinity.
\<close>

definition pow2 :: "int \<Rightarrow> real" where
  "pow2 e = (if 0 \<le> e then 2 ^ nat e else 1 / 2 ^ nat (- e))"

function binade_from :: "int \<Rightarrow> real \<Rightarrow> int" where
  "binade_from e x =
     (if e \<le> - 1022 then - 1022
      else if pow2 e \<le> x then e
      else binade_from (e - 1) x)"
  by pat_completeness auto
termination
  by (relation "measure (\<lambda>(e, x). nat (e + 1022))") auto

declare binade_from.simps [simp del]

definition binade :: "real \<Rightarrow> int" where
  "binade x = binade_from 1023 x"

definition rne :: "real \<Rightarrow> int" where
  "rne q =
     (if q - of_int \<lfloor>q\<rfloor> < 1 / 2 then \<lfloor>q\<rfloor>
      else if 1 / 2 < q - of_int \<lfloor>q\<rfloor> then \<lfloor>q\<rfloor> + 1
      else if even \<lfloor>q\<rfloor> then \<lfloor>q\<rfloor> else \<lfloor>q\<rfloor> + 1)"

definition round_mag :: "real \<Rightarrow> real" where
  "round_mag x = real_of_int (rne (x / pow2 (binade x - 52))) * pow2 (binade x - 52)"

definition fl :: "real \<Rightarrow> jsnum" where
  "fl x =
     (if 0 \<le> x
      then (if pow2 1024 \<le> round_mag x then PosInf else Fin (round_mag x))
      else (if pow2 1024 \<le> round_mag (- x) then NegInf else Fin (- round_mag (- x))))"

text \<open>The finite doubles lie strictly between \<open>-2^1024\<close> and \<open>2^1024\<close>.\<close>

definition double_range :: "real \<Rightarrow> bool" where
  "double_range x = (\<bar>x\<bar> < pow2 1024)"

text \<open>
  The operators \<open>+\<close>, \<open>-\<close>, \<open>*\<close> on numbers, and \<open>/\<close> by a literal other
  than zero, which is the only division the source has.
\<close>

fun add64 :: "jsnum \<Rightarrow> jsnum \<Rightarrow> jsnum" where
  "add64 NaN _ = NaN"
| "add64 _ NaN = NaN"
| "add64 (Fin a) (Fin b) = fl (a + b)"
| "add64 PosInf NegInf = NaN"
| "add64 NegInf PosInf = NaN"
| "add64 PosInf _ = PosInf"
| "add64 NegInf _ = NegInf"
| "add64 (Fin _) PosInf = PosInf"
| "add64 (Fin _) NegInf = NegInf"

definition sub64 :: "jsnum \<Rightarrow> jsnum \<Rightarrow> jsnum" where
  "sub64 a b = add64 a (js_neg b)"

fun mul64 :: "jsnum \<Rightarrow> jsnum \<Rightarrow> jsnum" where
  "mul64 NaN _ = NaN"
| "mul64 _ NaN = NaN"
| "mul64 (Fin a) (Fin b) = fl (a * b)"
| "mul64 (Fin a) PosInf = (if a = 0 then NaN else if 0 < a then PosInf else NegInf)"
| "mul64 (Fin a) NegInf = (if a = 0 then NaN else if 0 < a then NegInf else PosInf)"
| "mul64 PosInf (Fin b) = (if b = 0 then NaN else if 0 < b then PosInf else NegInf)"
| "mul64 NegInf (Fin b) = (if b = 0 then NaN else if 0 < b then NegInf else PosInf)"
| "mul64 PosInf PosInf = PosInf"
| "mul64 NegInf NegInf = PosInf"
| "mul64 PosInf NegInf = NegInf"
| "mul64 NegInf PosInf = NegInf"

fun div64 :: "jsnum \<Rightarrow> real \<Rightarrow> jsnum" where
  "div64 NaN c = NaN"
| "div64 (Fin a) c = fl (a / c)"
| "div64 PosInf c = (if 0 < c then PosInf else NegInf)"
| "div64 NegInf c = (if 0 < c then NegInf else PosInf)"

section \<open>The near-earth-object feed and its summary\<close>

text \<open>
  The feed as \<open>summarizeNeos\<close> reads it. A field the source reaches through optional
  chaining is an \<open>option\<close>: \<open>estimated_diameter_max\<close> stands for the path
  \<open>estimated_diameter?.meters?.estimated_diameter_max\<close> (\<open>None\<close> when it is not a
  number), \<open>miss_distance_kilometers\<close> for \<open>miss_distance?.kilometers\<close>. In
  \<open>near_earth_objects\<close> the outer \<open>None\<close> is an absent mapping and an inner
  \<open>None\<close> a value that is not an array.
\<close>

record close_approach =
  close_approach_date :: string
  miss_distance_kilometers :: "string option"

record NasaNeo =
  neo_name :: string
  is_potentially_hazardous_asteroid :: bool
  estimated_diameter_max :: "real option"
  close_approach_data :: "close_approach list option"

record NasaNeoFeed =
  near_earth_objects :: "(string \<times> NasaNeo list option) list option"

record Buckets =
  lt3 :: real
  gte3lt4 :: real
  gte4 :: real

record NeoSummary =
  days :: jsnum
  totalCount :: real
  hazardousCount :: real
  maxEstimatedDiameterMeters :: real
  minMissDistanceKm :: real
  buckets :: Buckets

text \<open>The first loop of \<open>summarizeNeos\<close>: every array of the mapping, in key order.\<close>

definition all_neos :: "NasaNeoFeed \<Rightarrow> NasaNeo list" where
  "all_neos feed =
     concat (map (\<lambda>(k, arr). case arr of Some ns \<Rightarrow> ns | None \<Rightarrow> [])
                 (case near_earth_objects feed of Some kvs \<Rightarrow> kvs | None \<Rightarrow> []))"

text \<open>The local variables of the second loop.\<close>

record neo_vars =
  v_totalCount :: real
  v_hazardousCount :: real
  v_maxEstimatedDiameterMeters :: real
  v_minMissDistanceKm :: jsnum
  v_lt3 :: real
  v_gte3lt4 :: real
  v_gte4 :: real

definition neo_vars_init :: neo_vars where
  "neo_vars_init =
     \<lparr>v_totalCount = 0, v_hazardousCount = 0, v_maxEstimatedDiameterMeters = 0,
      v_minMissDistanceKm = PosInf, v_lt3 = 0, v_gte3lt4 = 0, v_gte4 = 0\<rparr>"

definition magGuess :: "NasaNeo \<Rightarrow> real" where
  "magGuess neo = (if is_potentially_hazardous_asteroid neo then 4.0 else 2.9)"

text \<open>
  \<open>miss ? Number(miss) : Number.POSITIVE_INFINITY\<close>, where \<open>miss\<close> is the kilometers
  string of the first close-approach entry: an absent entry, an absent string and the
  empty string are falsy.
\<close>

definition missKm :: "NasaNeo \<Rightarrow> jsnum" where
  "missKm neo =
     (case close_approach_data neo of
        Some (e # _) \<Rightarrow>
          (case miss_distance_kilometers e of
             Some miss \<Rightarrow> if miss \<noteq> [] then js_Number miss else PosInf
           | None \<Rightarrow> PosInf)
      | _ \<Rightarrow> PosInf)"

definition update_min :: "jsnum \<Rightarrow> jsnum \<Rightarrow> jsnum" where
  "update_min cur km = (if \<not> isNaN km \<and> js_lt km cur then km else cur)"

definition neo_step :: "neo_vars \<Rightarrow> NasaNeo \<Rightarrow> neo_vars" where
  "neo_step v neo =
     (let v1 = v\<lparr>v_totalCount := v_totalCount v + 1\<rparr>;
          v2 = (if is_potentially_hazardous_asteroid neo
                then v1\<lparr>v_hazardousCount := v_hazardousCount v1 + 1\<rparr> else v1);
          v3 = (case estimated_diameter_max neo of
                  Some d \<Rightarrow> if d > v_maxEstimatedDiameterMeters v2
                            then v2\<lparr>v_maxEstimatedDiameterMeters := d\<rparr> else v2
                | None \<Rightarrow> v2);
          v4 = (if magGuess neo < 3 then v3\<lparr>v_lt3 := v_lt3 v3 + 1\<rparr>
                else if magGuess neo < 4 then v3\<lparr>v_gte3lt4 := v_gte3lt4 v3 + 1\<rparr>
                else v3\<lparr>v_gte4 := v_gte4 v3 + 1\<rparr>)
      in v4\<lparr>v_minMissDistanceKm := update_min (v_minMissDistanceKm v4) (missKm neo)\<rparr>)"

definition summarizeNeos :: "NasaNeoFeed \<Rightarrow> jsnum \<Rightarrow> NeoSummary" where
  "summarizeNeos feed ds =
     (let v = foldl neo_step neo_vars_init (all_neos feed) in
      \<lparr>days = ds,
       totalCount = v_totalCount v,
       hazardousCount = v_hazardousCount v,
       maxEstimatedDiameterMeters = v_maxEstimatedDiameterMeters v,
       minMissDistanceKm =
         (case v_minMissDistanceKm v of Fin km \<Rightarrow> km | _ \<Rightarrow> 0),
       buckets = \<lparr>lt3 = v_lt3 v, gte3lt4 = v_gte3lt4 v, gte4 = v_gte4 v\<rparr>\<rparr>)"

text \<open>
  What the spec calls a valid distance of an object: the kilometers string of its first
  close-approach entry is there, is not empty and converts to a finite number.
\<close>

definition valid_miss :: "NasaNeo \<Rightarrow> real option" where
  "valid_miss neo =
     (case close_approach_data neo of
        Some (e # _) \<Rightarrow>
          (case miss_distance_kilometers e of
             Some s \<Rightarrow> (if s = [] then None
                         else (case js_Number s of Fin km \<Rightarrow> Some km | _ \<Rightarrow> None))
           | None \<Rightarrow> None)
      | _ \<Rightarrow> None)"

definition valid_misses :: "NasaNeoFeed \<Rightarrow> real list" where
  "valid_misses feed = List.map_filter valid_miss (all_neos feed)"

section \<open>The threat score\<close>

text \<open>
  \<open>computeThreat\<close> takes the numbers of a summary, an ISS distance and the hours to the
  next launch. \<open>Math.round\<close> returns the nearest integer and, of two equally near, the
  one towards \<open>+\<infinity>\<close>; it leaves \<open>NaN\<close> and the infinities as they are. The
  literal \<open>0.2\<close> is the double nearest to it. A comparison with \<open>NaN\<close> is false, so a
  \<open>NaN\<close> score has the level \<open>LOW\<close>.
\<close>

datatype level = HIGH | MEDIUM | LOW

record Threat =
  score :: jsnum
  level :: level

fun Math_round :: "jsnum \<Rightarrow> jsnum" where
  "Math_round (Fin x) =
     Fin (real_of_int (if x - of_int \<lfloor>x\<rfloor> < 1 / 2 then \<lfloor>x\<rfloor> else \<lfloor>x\<rfloor> + 1))"
| "Math_round n = n"

definition computeThreat :: "NeoSummary \<Rightarrow> jsnum \<Rightarrow> jsnum \<Rightarrow> Threat" where
  "computeThreat neo issDistanceKm hoursToLaunch =
     (let missRisk =
            (if minMissDistanceKm neo = 0 then Fin 0
             else js_max (Fin 0) (sub64 (Fin 3) (div64 (Fin (minMissDistanceKm neo)) 1000000)));
          sizeRisk = js_min (Fin 5) (div64 (Fin (maxEstimatedDiameterMeters neo)) 100);
          issRisk = js_max (Fin 0) (sub64 (Fin 2) (div64 issDistanceKm 2000));
          launchRisk = js_max (Fin 0) (sub64 (Fin 2) (div64 hoursToLaunch 24));
          sc = Math_round
                 (add64 (add64 (add64 (add64 (add64
                    (mul64 (Fin (hazardousCount neo)) (Fin 3))
                    (mul64 (Fin (totalCount neo)) (fl 0.2)))
                    (mul64 missRisk (Fin 4)))
                    (mul64 sizeRisk (Fin 2)))
                    (mul64 issRisk (Fin 2)))
                    (mul64 launchRisk (Fin 1)))
      in \<lparr>score = sc,
          level = (if js_le (Fin 18) sc then HIGH else if js_le (Fin 10) sc then MEDIUM else LOW)\<rparr>)"

section \<open>Great-circle distance\<close>

text \<open>
  ECMAScript leaves the values of \<open>Math.sin\<close>, \<open>Math.cos\<close> and \<open>Math.atan2\<close> to the
  implementation, so they are parameters of \<open>haversineKm\<close>. \<open>Math.sqrt\<close> is the
  rounded square root, \<open>NaN\<close> below zero; \<open>Math.PI\<close> is the double nearest to
  \<open>\<pi>\<close>.
\<close>

record MathLib =
  Math_sin :: "jsnum \<Rightarrow> jsnum"
  Math_cos :: "jsnum \<Rightarrow> jsnum"
  Math_atan2 :: "jsnum \<Rightarrow> jsnum \<Rightarrow> jsnum"

definition Math_PI :: real where
  "Math_PI = 884279719003555 / 281474976710656"

fun Math_sqrt :: "jsnum \<Rightarrow> jsnum" where
  "Math_sqrt (Fin x) = (if x < 0 then NaN else fl (sqrt x))"
| "Math_sqrt PosInf = PosInf"
| "Math_sqrt _ = NaN"

definition toRad :: "jsnum \<Rightarrow> jsnum" where
  "toRad deg = div64 (mul64 deg (Fin Math_PI)) 180"

definition haversineKm :: "MathLib \<Rightarrow> jsnum \<Rightarrow> jsnum \<Rightarrow> jsnum \<Rightarrow> jsnum \<Rightarrow> jsnum" where
  "haversineKm M lat1 lon1 lat2 lon2 =
     (let R = Fin 6371;
          dLat = toRad (sub64 lat2 lat1);
          dLon = toRad (sub64 lon2 lon1);
          a = add64
                (mul64 (Math_sin M (div64 dLat 2)) (Math_sin M (div64 dLat 2)))
                (mul64 (mul64 (mul64 (Math_cos M (toRad lat1)) (Math_cos M (toRad lat2)))
                              (Math_sin M (div64 dLon 2)))
                       (Math_sin M (div64 dLon 2)));
          c = mul64 (Fin 2) (Math_atan2 M (Math_sqrt a) (Math_sqrt (sub64 (Fin 1) a)))
      in mul64 R c)"

section \<open>Argument resolution\<close>

datatype adapter = Nominatim_search | ISS_now | SpaceX_next | NASA_APOD | NASA_NEO_feed

text \<open>Every \<open>throw\<close> of the program, and the exceptions of the built-ins it calls.\<close>

datatype error =
    Missing_city
  | Invalid_days
  | Invalid_mode
  | Invalid_date
  | Failed adapter
  | Nominatim_HTTP nat
  | City_not_found string
  | Invalid_coordinates string
  | ISS_HTTP nat
  | Invalid_ISS_coordinates
  | SpaceX_HTTP nat
  | APOD_HTTP nat
  | NEO_HTTP nat
  | RangeError
  | Write_failed

datatype Mode = stealth | verbose

record Args =
  arg_city :: string
  arg_days :: jsnum
  arg_mode :: Mode
  arg_date :: string

text \<open>
  \<open>parsed[key] = value\<close> on a plain object: the key \<open>__proto__\<close> is the prototype
  accessor, and assigning a string to it stores nothing.
\<close>

definition set_prop :: "(string \<rightharpoonup> string) \<Rightarrow> string \<Rightarrow> string \<Rightarrow> (string \<rightharpoonup> string)" where
  "set_prop parsed key v = (if key = ''__proto__'' then parsed else parsed(key \<mapsto> v))"

definition startsWith_dashes :: "string \<Rightarrow> bool" where
  "startsWith_dashes s = (take 2 s = ''--'')"

text \<open>
  The loop over the tokens: a token that does not start with \<open>--\<close> is skipped; the
  next token is the option's value when it exists, is not empty and does not start with
  \<open>--\<close>, and is then consumed; otherwise the option is set to \<open>true\<close>.
\<close>

fun parse_tokens :: "(string \<rightharpoonup> string) \<Rightarrow> string list \<Rightarrow> (string \<rightharpoonup> string)" where
  "parse_tokens parsed [] = parsed"
| "parse_tokens parsed [token] =
     (if \<not> startsWith_dashes token then parsed
      else set_prop parsed (drop 2 token) ''true'')"
| "parse_tokens parsed (token # v # rest) =
     (if \<not> startsWith_dashes token then parse_tokens parsed (v # rest)
      else if v \<noteq> [] \<and> \<not> startsWith_dashes v
           then parse_tokens (set_prop parsed (drop 2 token) v) rest
           else parse_tokens (set_prop parsed (drop 2 token) ''true'') (v # rest))"

text \<open>The regular expression \<open>/^\d{4}-\d{2}-\d{2}$/\<close>.\<close>

definition is_iso_date :: "string \<Rightarrow> bool" where
  "is_iso_date s =
     (length s = 10 \<and> list_all is_digit (take 4 s) \<and> s ! 4 = CHR ''-'' \<and>
      list_all is_digit (take 2 (drop 5 s)) \<and> s ! 7 = CHR ''-'' \<and>
      list_all is_digit (drop 8 s))"

text \<open>\<open>parsed.days ?? "3"\<close>, the text that \<open>Number\<close> converts.\<close>

definition days_text :: "(string \<rightharpoonup> string) \<Rightarrow> string" where
  "days_text parsed = (case parsed ''days'' of Some v \<Rightarrow> v | None \<Rightarrow> ''3'')"

text \<open>
  \<open>today\<close> is \<open>new Date().toISOString().slice(0, 10)\<close>, the only reading of the
  clock in \<open>parseArgs\<close>. \<open>!days\<close> holds of \<open>0\<close> and of \<open>NaN\<close>.
\<close>

definition parsed_options :: "string list \<Rightarrow> (string \<rightharpoonup> string)" where
  "parsed_options argv = parse_tokens Map.empty (drop 2 argv)"

definition js_falsy :: "jsnum \<Rightarrow> bool" where
  "js_falsy n = (n = Fin 0 \<or> isNaN n)"

definition parseArgs :: "string \<Rightarrow> string list \<Rightarrow> error + Args" where
  "parseArgs today argv =
     (let parsed = parsed_options argv;
          city = parsed ''city'';
          ds = js_Number (days_text parsed);
          md = (case parsed ''mode'' of Some v \<Rightarrow> v | None \<Rightarrow> ''stealth'');
          dt = (case parsed ''date'' of Some v \<Rightarrow> v | None \<Rightarrow> today)
      in case city of
           None \<Rightarrow> Inl Missing_city
         | Some c \<Rightarrow>
             if c = [] then Inl Missing_city
             else if js_falsy ds \<or> isNaN ds \<or> js_lt ds (Fin 1) then Inl Invalid_days
             else if md \<noteq> ''stealth'' \<and> md \<noteq> ''verbose'' then Inl Invalid_mode
             else if \<not> is_iso_date dt then Inl Invalid_date
             else Inr \<lparr>arg_city = c, arg_days = ds,
                       arg_mode = (if md = ''verbose'' then verbose else stealth),
                       arg_date = dt\<rparr>)"

text \<open>A number that is at least 1: what the test on \<open>days\<close> lets through.\<close>

fun at_least_one :: "jsnum \<Rightarrow> bool" where
  "at_least_one (Fin x) = (1 \<le> x)"
| "at_least_one PosInf = True"
| "at_least_one _ = False"

lemmas parseArgs_eval =
  parseArgs_def parsed_options_def startsWith_dashes_def set_prop_def days_text_def
  js_falsy_def is_iso_date_def Let_def js_Number_eval

section \<open>Calendar dates\<close>

text \<open>
  \<open>addDays\<close> goes through \<open>Date\<close>: the string \<open>YYYY-MM-DDT00:00:00Z\<close> is parsed
  (a month outside 01..12 or a day outside 01..31 gives an invalid date; a day beyond
  the month's length carries into the next month), \<open>setUTCDate\<close> replaces the day of
  the month by \<open>getUTCDate() + days\<close> truncated to an integer and carries it into the
  months and years, a date further than 100,000,000 days from 1970-01-01 is invalid, and
  \<open>toISOString\<close> throws a \<open>RangeError\<close> on an invalid date. All of it is UTC
  midnight, so only the calendar date is kept.
\<close>

type_synonym ymd = "int \<times> int \<times> int"

definition leap_year :: "int \<Rightarrow> bool" where
  "leap_year y = (y mod 4 = 0 \<and> (y mod 100 \<noteq> 0 \<or> y mod 400 = 0))"

definition days_in_month :: "int \<Rightarrow> int \<Rightarrow> int" where
  "days_in_month y m =
     (if m = 2 then (if leap_year y then 29 else 28)
      else if m = 4 \<or> m = 6 \<or> m = 9 \<or> m = 11 then 30
      else 31)"

lemma days_in_month_bounds: "28 \<le> days_in_month y m" "days_in_month y m \<le> 31"
  by (simp_all add: days_in_month_def)

function roll_forward :: "int \<Rightarrow> int \<Rightarrow> int \<Rightarrow> ymd" where
  "roll_forward y m d =
     (if d > days_in_month y m
      then (if m = 12 then roll_forward (y + 1) 1 (d - days_in_month y m)
            else roll_forward y (m + 1) (d - days_in_month y m))
      else (y, m, d))"
  by pat_completeness auto
termination
proof (relation "measure (\<lambda>(y, m, d). nat d)")
  show "wf (measure (\<lambda>(y, m, d). nat d))" by simp
next
  fix y m d :: int
  assume "days_in_month y m < d" "m = 12"
  then show "((y + 1, 1, d - days_in_month y m), (y, m, d)) \<in> measure (\<lambda>(y, m, d). nat d)"
    using days_in_month_bounds(1) [of y m] by simp
next
  fix y m d :: int
  assume "days_in_month y m < d" "m \<noteq> 12"
  then show "((y, m + 1, d - days_in_month y m), (y, m, d)) \<in> measure (\<lambda>(y, m, d). nat d)"
    using days_in_month_bounds(1) [of y m] by simp
qed

function roll_backward :: "int \<Rightarrow> int \<Rightarrow> int \<Rightarrow> ymd" where
  "roll_backward y m d =
     (if d < 1
      then (if m = 1 then roll_backward (y - 1) 12 (d + days_in_month (y - 1) 12)
            else roll_backward y (m - 1) (d + days_in_month y (m - 1)))
      else (y, m, d))"
  by pat_completeness auto
termination
proof (relation "measure (\<lambda>(y, m, d). nat (1 - d))")
  show "wf (measure (\<lambda>(y, m, d). nat (1 - d)))" by simp
next
  fix y m d :: int
  assume "d < 1" "m = 1"
  then show "((y - 1, 12, d + days_in_month (y - 1) 12), (y, m, d))
               \<in> measure (\<lambda>(y, m, d). nat (1 - d))"
    using days_in_month_bounds(1) [of "y - 1" 12] by simp
next
  fix y m d :: int
  assume "d < 1" "m \<noteq> 1"
  then show "((y, m - 1, d + days_in_month y (m - 1)), (y, m, d))
               \<in> measure (\<lambda>(y, m, d). nat (1 - d))"
    using days_in_month_bounds(1) [of y "m - 1"] by simp
qed

declare roll_forward.simps [simp del] roll_backward.simps [simp del]

text \<open>The date of day \<open>d\<close> of month \<open>m\<close>, for any integer \<open>d\<close>.\<close>

definition MakeDay :: "int \<Rightarrow> int \<Rightarrow> int \<Rightarrow> ymd" where
  "MakeDay y m d = (if d < 1 then roll_backward y m d else roll_forward y m d)"

text \<open>The number of the day since 1970-01-01, for the range test of a time value.\<close>

definition DayFromYear :: "int \<Rightarrow> int" where
  "DayFromYear y =
     365 * (y - 1970) + (y - 1969) div 4 - (y - 1901) div 100 + (y - 1601) div 400"

definition day_number :: "ymd \<Rightarrow> int" where
  "day_number t =
     (case t of (y, m, d) \<Rightarrow>
        DayFromYear y + sum_list (map (days_in_month y) [1..m - 1]) + d - 1)"

definition in_time_range :: "ymd \<Rightarrow> bool" where
  "in_time_range t = (\<bar>day_number t\<bar> \<le> 100000000)"

text \<open>Decimal digits of fixed width, and the date part of \<open>toISOString\<close>.\<close>

definition digit_char :: "nat \<Rightarrow> char" where
  "digit_char n = ''0123456789'' ! (n mod 10)"

primrec pad_digits :: "nat \<Rightarrow> nat \<Rightarrow> string" where
  "pad_digits 0 n = []"
| "pad_digits (Suc k) n = pad_digits k (n div 10) @ [digit_char n]"

lemma div_10_chain:
  "n div 10 div 10 = n div (100::nat)"
  "n div 100 div 10 = n div (1000::nat)"
  "n div 1000 div 10 = n div (10000::nat)"
  "n div 10000 div 10 = n div (100000::nat)"
  by (simp_all add: div_mult2_eq [symmetric])

lemma pad_digits_Suc:
  "pad_digits (Suc (Suc 0)) n = [digit_char (n div 10), digit_char n]"
  "pad_digits (Suc (Suc (Suc (Suc 0)))) n =
     [digit_char (n div 1000), digit_char (n div 100), digit_char (n div 10), digit_char n]"
  "pad_digits (Suc (Suc (Suc (Suc (Suc (Suc 0)))))) n =
     [digit_char (n div 100000), digit_char (n div 10000), digit_char (n div 1000),
      digit_char (n div 100), digit_char (n div 10), digit_char n]"
  by (simp_all add: div_10_chain)

lemma small_numerals:
  "(2::nat) = Suc (Suc 0)"
  "(4::nat) = Suc (Suc (Suc (Suc 0)))"
  "(6::nat) = Suc (Suc (Suc (Suc (Suc (Suc 0)))))"
  by simp_all

lemma pad_digits_numeral:
  "pad_digits 2 n = [digit_char (n div 10), digit_char n]"
  "pad_digits 4 n =
     [digit_char (n div 1000), digit_char (n div 100), digit_char (n div 10), digit_char n]"
  "pad_digits 6 n =
     [digit_char (n div 100000), digit_char (n div 10000), digit_char (n div 1000),
      digit_char (n div 100), digit_char (n div 10), digit_char n]"
  by (simp_all only: small_numerals pad_digits_Suc)

definition toISOString :: "ymd \<Rightarrow> string" where
  "toISOString t =
     (case t of (y, m, d) \<Rightarrow>
        (if 0 \<le> y \<and> y \<le> 9999 then pad_digits 4 (nat y)
         else (if y < 0 then ''-'' else ''+'') @ pad_digits 6 (nat \<bar>y\<bar>))
        @ ''-'' @ pad_digits 2 (nat m) @ ''-'' @ pad_digits 2 (nat d)
        @ ''T00:00:00.000Z'')"

definition parse_fields :: "string \<Rightarrow> ymd option" where
  "parse_fields s =
     (if is_iso_date s then
        (let y = int (digits_val 10 (take 4 s));
             m = int (digits_val 10 (take 2 (drop 5 s)));
             d = int (digits_val 10 (drop 8 s))
         in if 1 \<le> m \<and> m \<le> 12 \<and> 1 \<le> d \<and> d \<le> 31 then Some (y, m, d) else None)
      else None)"

definition parse_date :: "string \<Rightarrow> ymd option" where
  "parse_date s =
     (case parse_fields s of Some (y, m, d) \<Rightarrow> Some (MakeDay y m d) | None \<Rightarrow> None)"

definition js_trunc :: "real \<Rightarrow> int" where
  "js_trunc x = (if 0 \<le> x then \<lfloor>x\<rfloor> else \<lceil>x\<rceil>)"

definition addDays :: "string \<Rightarrow> jsnum \<Rightarrow> error + string" where
  "addDays yyyyMmDd ds =
     (case parse_date yyyyMmDd of
        None \<Rightarrow> Inl RangeError
      | Some (y, m, d) \<Rightarrow>
          (case ds of
             Fin x \<Rightarrow>
               (let t = MakeDay y m (js_trunc (real_of_int d + x))
                in if in_time_range t then Inr (take 10 (toISOString t)) else Inl RangeError)
           | _ \<Rightarrow> Inl RangeError))"

text \<open>
  The date range of the feed in \<open>main\<close>: \<open>neoDays = Math.min(days, 7)\<close>,
  \<open>startDate = date\<close>, \<open>endDate = addDays(date, neoDays - 1)\<close>.
\<close>

definition neoDays :: "jsnum \<Rightarrow> jsnum" where
  "neoDays ds = js_min ds (Fin 7)"

definition neo_date_range :: "jsnum \<Rightarrow> string \<Rightarrow> error + string \<times> string" where
  "neo_date_range ds date =
     (case addDays date (js_sub (neoDays ds) (Fin 1)) of
        Inl e \<Rightarrow> Inl e
      | Inr endDate \<Rightarrow> Inr (date, endDate))"

text \<open>Calendar arithmetic as the spec has it: the day after a date, repeated.\<close>

definition next_day :: "ymd \<Rightarrow> ymd" where
  "next_day t =
     (case t of (y, m, d) \<Rightarrow>
        if d < days_in_month y m then (y, m, d + 1)
        else if m = 12 then (y + 1, 1, 1)
        else (y, m + 1, 1))"

definition ymd_string :: "ymd \<Rightarrow> string" where
  "ymd_string t =
     (case t of (y, m, d) \<Rightarrow>
        pad_digits 4 (nat y) @ ''-'' @ pad_digits 2 (nat m) @ ''-'' @ pad_digits 2 (nat d))"


lemmas date_eval =
  parse_date_def parse_fields_def is_iso_date_def is_digit_def digits_val_def hex_val_def
  MakeDay_def days_in_month_def leap_year_def js_trunc_def in_time_range_def day_number_def
  DayFromYear_def toISOString_def ymd_string_def next_day_def neoDays_def Let_def
  roll_forward.simps roll_backward.simps pad_digits_numeral digit_char_def

section \<open>The upstream adapters and \<open>main\<close>\<close>

text \<open>
  An HTTP client built by \<open>makeClient\<close> never rejects on a status
  (\<open>validateStatus\<close> is constantly true): a request either throws (no connection, the
  15 s timeout), which is \<open>None\<close>, or yields a status and a body. The bodies have the
  shape of their TypeScript types. The world of one run holds the answer of each
  endpoint to each request, the clock, \<open>Date.parse\<close>, the \<open>Math\<close> functions of the
  engine, and whether the file can be written. Console output is left out.
\<close>

datatype 'a response = Response nat 'a

record NominatimResult =
  lat :: string
  lon :: string
  display_name :: string

record IssNowResponse =
  iss_timestamp :: real
  iss_position_latitude :: string
  iss_position_longitude :: string

record SpaceXNextLaunch =
  launch_name :: string
  date_utc :: string
  links_webcast :: "string option"

record NasaApod =
  apod_date :: string
  apod_title :: string
  media_type :: string
  url :: string

record World =
  nominatim_search :: "string \<Rightarrow> NominatimResult list response option"
  iss_now :: "IssNowResponse response option"
  launches_next :: "SpaceXNextLaunch response option"
  planetary_apod :: "string \<Rightarrow> NasaApod response option"
  neo_feed :: "string \<Rightarrow> string \<Rightarrow> NasaNeoFeed response option"
  math :: MathLib
  Date_parse :: "string \<Rightarrow> jsnum"
  Date_now :: real
  today_utc :: string
  now_iso :: string
  write_ok :: bool

record Location =
  city :: string
  displayName :: string
  latitude :: jsnum
  longitude :: jsnum

record IssNow =
  iss_latitude :: jsnum
  iss_longitude :: jsnum
  timestamp :: real

text \<open>\<open>timed\<close>: any exception of the request becomes the error \<open>name failed\<close>.\<close>

definition timed :: "adapter \<Rightarrow> 'a response option \<Rightarrow> error + 'a response" where
  "timed name res = (case res of None \<Rightarrow> Inl (Failed name) | Some r \<Rightarrow> Inr r)"

definition getCityLocation :: "World \<Rightarrow> string \<Rightarrow> error + Location" where
  "getCityLocation w c =
     (case timed Nominatim_search (nominatim_search w c) of
        Inl e \<Rightarrow> Inl e
      | Inr (Response status results) \<Rightarrow>
          if status \<ge> 400 then Inl (Nominatim_HTTP status)
          else (case results of
                  [] \<Rightarrow> Inl (City_not_found c)
                | first # _ \<Rightarrow>
                    if isNaN (js_Number (lat first)) \<or> isNaN (js_Number (lon first))
                    then Inl (Invalid_coordinates c)
                    else Inr \<lparr>city = c, displayName = display_name first,
                              latitude = js_Number (lat first),
                              longitude = js_Number (lon first)\<rparr>))"

definition getIssNow :: "World \<Rightarrow> error + IssNow" where
  "getIssNow w =
     (case timed ISS_now (iss_now w) of
        Inl e \<Rightarrow> Inl e
      | Inr (Response status d) \<Rightarrow>
          if status \<ge> 400 then Inl (ISS_HTTP status)
          else if isNaN (js_Number (iss_position_latitude d))
                  \<or> isNaN (js_Number (iss_position_longitude d))
               then Inl Invalid_ISS_coordinates
               else Inr \<lparr>iss_latitude = js_Number (iss_position_latitude d),
                         iss_longitude = js_Number (iss_position_longitude d),
                         timestamp = iss_timestamp d\<rparr>)"

definition getSpaceXNext :: "World \<Rightarrow> error + SpaceXNextLaunch" where
  "getSpaceXNext w =
     (case timed SpaceX_next (launches_next w) of
        Inl e \<Rightarrow> Inl e
      | Inr (Response status d) \<Rightarrow>
          if status \<ge> 400 then Inl (SpaceX_HTTP status) else Inr d)"

definition getApod :: "World \<Rightarrow> string \<Rightarrow> error + NasaApod" where
  "getApod w date =
     (case timed NASA_APOD (planetary_apod w date) of
        Inl e \<Rightarrow> Inl e
      | Inr (Response status d) \<Rightarrow>
          if status \<ge> 400 then Inl (APOD_HTTP status) else Inr d)"

definition getNeoFeed :: "World \<Rightarrow> string \<Rightarrow> string \<Rightarrow> error + NasaNeoFeed" where
  "getNeoFeed w startDate endDate =
     (case timed NASA_NEO_feed (neo_feed w startDate endDate) of
        Inl e \<Rightarrow> Inl e
      | Inr (Response status d) \<Rightarrow>
          if status \<ge> 400 then Inl (NEO_HTTP status) else Inr d)"

text \<open>
  \<open>Number.isFinite(launchMs) ? (launchMs - Date.now()) / 3_600_000 : 0\<close>, where
  \<open>launchMs\<close> is \<open>Date.parse(nextLaunch.date_utc)\<close>.
\<close>

fun hoursToLaunch :: "jsnum \<Rightarrow> real \<Rightarrow> real" where
  "hoursToLaunch (Fin launchMs) now = (launchMs - now) / 3600000"
| "hoursToLaunch _ now = 0"

record Briefing =
  b_generatedAt :: string
  b_input :: Args
  b_location :: Location
  b_iss :: IssNow
  b_iss_distanceKm :: jsnum
  b_nextLaunch :: SpaceXNextLaunch
  b_hoursToLaunch :: real
  b_apod :: NasaApod
  b_neo :: NeoSummary
  b_threat :: Threat

datatype event = Request adapter | Write_briefing Briefing

definition all_requests :: "event list" where
  "all_requests =
     [Request Nominatim_search, Request ISS_now, Request SpaceX_next, Request NASA_APOD,
      Request NASA_NEO_feed]"

text \<open>
  The body of \<open>main\<close>, with the requests sent and the file written, in order. The four
  calls given to \<open>Promise.all\<close> are all started before any is awaited; when several
  fail, the one reported here is the first of the array (which one rejects first in a
  real run depends on timing; the exit code does not).
\<close>

definition main_body :: "World \<Rightarrow> string list \<Rightarrow> (error + Briefing) \<times> event list" where
  "main_body w argv =
     (case parseArgs (today_utc w) argv of
        Inl e \<Rightarrow> (Inl e, [])
      | Inr a \<Rightarrow>
          (case neo_date_range (arg_days a) (arg_date a) of
             Inl e \<Rightarrow> (Inl e, [])
           | Inr (startDate, endDate) \<Rightarrow>
               (case getCityLocation w (arg_city a) of
                  Inl e \<Rightarrow> (Inl e, [Request Nominatim_search])
                | Inr loc \<Rightarrow>
                    (case getIssNow w of
                       Inl e \<Rightarrow> (Inl e, all_requests)
                     | Inr issNow \<Rightarrow>
                    (case getSpaceXNext w of
                       Inl e \<Rightarrow> (Inl e, all_requests)
                     | Inr launch \<Rightarrow>
                    (case getApod w (arg_date a) of
                       Inl e \<Rightarrow> (Inl e, all_requests)
                     | Inr picture \<Rightarrow>
                    (case getNeoFeed w startDate endDate of
                       Inl e \<Rightarrow> (Inl e, all_requests)
                     | Inr neoFeed \<Rightarrow>
                         (let issDistanceKm =
                                haversineKm (math w) (latitude loc) (longitude loc)
                                  (iss_latitude issNow) (iss_longitude issNow);
                              hours = hoursToLaunch (Date_parse w (date_utc launch)) (Date_now w);
                              neoSummary = summarizeNeos neoFeed (neoDays (arg_days a));
                              briefing =
                                \<lparr>b_generatedAt = now_iso w, b_input = a, b_location = loc,
                                 b_iss = issNow, b_iss_distanceKm = issDistanceKm,
                                 b_nextLaunch = launch, b_hoursToLaunch = hours,
                                 b_apod = picture, b_neo = neoSummary,
                                 b_threat = computeThreat neoSummary issDistanceKm (Fin hours)\<rparr>
                          in if write_ok w
                             then (Inr briefing, all_requests @ [Write_briefing briefing])
                             else (Inl Write_failed, all_requests)))))))))"

text \<open>The exit code: \<open>1\<close> from the \<open>catch\<close> of \<open>main()\<close>, \<open>0\<close> otherwise.\<close>

definition exit_code :: "World \<Rightarrow> string list \<Rightarrow> nat" where
  "exit_code w argv = (case fst (main_body w argv) of Inl e \<Rightarrow> 1 | Inr b \<Rightarrow> 0)"

definition events :: "World \<Rightarrow> string list \<Rightarrow> event list" where
  "events w argv = snd (main_body w argv)"

section \<open>Lemmas on the loop of \<open>summarizeNeos\<close>\<close>

subsection \<open>The loop, field by field\<close>

lemma neo_step_totalCount: "v_totalCount (neo_step v neo) = v_totalCount v + 1"
  by (simp add: neo_step_def Let_def split: option.splits)

lemma neo_step_hazardousCount:
  "v_hazardousCount (neo_step v neo) =
     v_hazardousCount v + (if is_potentially_hazardous_asteroid neo then 1 else 0)"
  by (simp add: neo_step_def Let_def split: option.splits)

lemma neo_step_lt3:
  "v_lt3 (neo_step v neo) = v_lt3 v + (if is_potentially_hazardous_asteroid neo then 0 else 1)"
  by (simp add: neo_step_def Let_def magGuess_def split: option.splits)

lemma neo_step_gte3lt4: "v_gte3lt4 (neo_step v neo) = v_gte3lt4 v"
  by (simp add: neo_step_def Let_def magGuess_def split: option.splits)

lemma neo_step_gte4:
  "v_gte4 (neo_step v neo) = v_gte4 v + (if is_potentially_hazardous_asteroid neo then 1 else 0)"
  by (simp add: neo_step_def Let_def magGuess_def split: option.splits)

lemma neo_step_min:
  "v_minMissDistanceKm (neo_step v neo) = update_min (v_minMissDistanceKm v) (missKm neo)"
  by (simp add: neo_step_def Let_def split: option.splits)

lemma loop_totalCount:
  "v_totalCount (foldl neo_step v ns) = v_totalCount v + real (length ns)"
  by (induction ns arbitrary: v) (simp_all add: neo_step_totalCount)

lemma loop_hazardousCount:
  "v_hazardousCount (foldl neo_step v ns) =
     v_hazardousCount v + real (length (filter is_potentially_hazardous_asteroid ns))"
  by (induction ns arbitrary: v) (simp_all add: neo_step_hazardousCount)

lemma loop_lt3:
  "v_lt3 (foldl neo_step v ns) =
     v_lt3 v + real (length (filter (\<lambda>n. \<not> is_potentially_hazardous_asteroid n) ns))"
  by (induction ns arbitrary: v) (simp_all add: neo_step_lt3)

lemma loop_gte3lt4: "v_gte3lt4 (foldl neo_step v ns) = v_gte3lt4 v"
  by (induction ns arbitrary: v) (simp_all add: neo_step_gte3lt4)

lemma loop_gte4:
  "v_gte4 (foldl neo_step v ns) =
     v_gte4 v + real (length (filter is_potentially_hazardous_asteroid ns))"
  by (induction ns arbitrary: v) (simp_all add: neo_step_gte4)

lemma loop_min:
  "v_minMissDistanceKm (foldl neo_step v ns) =
     foldl update_min (v_minMissDistanceKm v) (map missKm ns)"
  by (induction ns arbitrary: v) (simp_all add: neo_step_min)

lemma length_filter_split:
  "length (filter P xs) + length (filter (\<lambda>x. \<not> P x) xs) = length xs"
  by (induction xs) simp_all

subsection \<open>The running minimum\<close>

definition finite_vals :: "jsnum list \<Rightarrow> real list" where
  "finite_vals ks = List.map_filter (\<lambda>k. case k of Fin x \<Rightarrow> Some x | _ \<Rightarrow> None) ks"

lemma finite_vals_simps:
  "finite_vals [] = []"
  "finite_vals (Fin x # ks) = x # finite_vals ks"
  "finite_vals (NaN # ks) = finite_vals ks"
  "finite_vals (PosInf # ks) = finite_vals ks"
  "finite_vals (NegInf # ks) = finite_vals ks"
  by (simp_all add: finite_vals_def List.map_filter_simps)

lemma update_min_skip:
  "update_min cur NaN = cur"
  "update_min (Fin a) PosInf = Fin a"
  "update_min PosInf PosInf = PosInf"
  by (simp_all add: update_min_def)

lemma update_min_NegInf: "update_min NegInf k = NegInf"
  by (cases k) (simp_all add: update_min_def)

lemma run_min_NegInf: "foldl update_min NegInf ks = NegInf"
  by (induction ks) (simp_all add: update_min_NegInf)

lemma Min_insert_absorb:
  fixes a x :: real
  assumes "finite S" and "x \<le> a"
  shows "Min (insert a (insert x S)) = Min (insert x S)"
proof -
  have "Min (insert a (insert x S)) = min a (Min (insert x S))"
    using assms(1) by (simp del: Min_insert add: Min.insert)
  moreover have "Min (insert x S) \<le> x"
    using assms(1) by (simp add: Min_le)
  ultimately show ?thesis using assms(2) by (simp add: min_def)
qed

lemma run_min_has_NegInf:
  "NegInf \<in> set ks \<Longrightarrow> cur \<noteq> NaN \<Longrightarrow> foldl update_min cur ks = NegInf"
proof (induction ks arbitrary: cur)
  case Nil
  then show ?case by simp
next
  case (Cons k ks)
  show ?case
  proof (cases "k = NegInf")
    case True
    then have "update_min cur k = NegInf"
      using Cons.prems(2) by (cases cur) (simp_all add: update_min_def)
    then show ?thesis by (simp add: run_min_NegInf)
  next
    case False
    with Cons.prems have mem: "NegInf \<in> set ks" by simp
    have "update_min cur k \<noteq> NaN"
      using Cons.prems(2) by (cases k) (auto simp: update_min_def)
    from Cons.IH [OF mem this] show ?thesis by simp
  qed
qed

lemma run_min_Fin:
  "NegInf \<notin> set ks \<Longrightarrow>
     foldl update_min (Fin a) ks = Fin (Min (insert a (set (finite_vals ks))))"
proof (induction ks arbitrary: a)
  case Nil
  then show ?case by (simp add: finite_vals_simps)
next
  case (Cons k ks)
  then have ih: "\<And>b. foldl update_min (Fin b) ks = Fin (Min (insert b (set (finite_vals ks))))"
    by simp
  show ?case
  proof (cases k)
    case (Fin x)
    have fin: "finite (set (finite_vals ks))" by simp
    show ?thesis
    proof (cases "x < a")
      case True
      then have "update_min (Fin a) k = Fin x" by (simp add: update_min_def Fin)
      moreover have "Min (insert x (set (finite_vals ks))) = Min (insert a (insert x (set (finite_vals ks))))"
        using True fin by (simp only: Min_insert_absorb [of _ x a] less_imp_le)
      ultimately show ?thesis by (simp only: foldl_Cons ih Fin finite_vals_simps list.set)
    next
      case False
      then have "update_min (Fin a) k = Fin a" by (simp add: update_min_def Fin)
      moreover have "Min (insert a (set (finite_vals ks))) = Min (insert a (insert x (set (finite_vals ks))))"
      proof -
        have "Min (insert a (insert x (set (finite_vals ks)))) = Min (insert x (insert a (set (finite_vals ks))))"
          by (simp only: insert_commute)
        also have "\<dots> = Min (insert a (set (finite_vals ks)))"
          using False fin by (simp only: Min_insert_absorb [of _ a x] not_less)
        finally show ?thesis by simp
      qed
      ultimately show ?thesis by (simp only: foldl_Cons ih Fin finite_vals_simps list.set)
    qed
  qed (use Cons.prems in \<open>simp_all add: update_min_skip ih finite_vals_simps\<close>)
qed

lemma run_min_PosInf:
  "NegInf \<notin> set ks \<Longrightarrow>
     foldl update_min PosInf ks =
       (if finite_vals ks = [] then PosInf else Fin (Min (set (finite_vals ks))))"
proof (induction ks)
  case Nil
  then show ?case by (simp add: finite_vals_simps)
next
  case (Cons k ks)
  show ?case
  proof (cases k)
    case (Fin x)
    then have "update_min PosInf k = Fin x" by (simp add: update_min_def)
    then show ?thesis using Cons.prems by (simp add: run_min_Fin Fin finite_vals_simps)
  qed (use Cons in \<open>simp_all add: update_min_skip finite_vals_simps\<close>)
qed

lemma valid_miss_missKm:
  "valid_miss neo = (case missKm neo of Fin km \<Rightarrow> Some km | _ \<Rightarrow> None)"
  by (simp add: valid_miss_def missKm_def split: option.splits list.splits)

lemma valid_misses_finite_vals:
  "valid_misses feed = finite_vals (map missKm (all_neos feed))"
proof -
  have "finite_vals (map missKm ns) = List.map_filter valid_miss ns" for ns
    by (induction ns)
       (simp_all add: finite_vals_def List.map_filter_simps valid_miss_missKm
          split: jsnum.splits)
  then show ?thesis by (simp add: valid_misses_def)
qed

lemma summary_fields:
  "totalCount (summarizeNeos feed ds) = real (length (all_neos feed))"
  "hazardousCount (summarizeNeos feed ds) =
     real (length (filter is_potentially_hazardous_asteroid (all_neos feed)))"
  "lt3 (buckets (summarizeNeos feed ds)) =
     real (length (filter (\<lambda>n. \<not> is_potentially_hazardous_asteroid n) (all_neos feed)))"
  "gte3lt4 (buckets (summarizeNeos feed ds)) = 0"
  "gte4 (buckets (summarizeNeos feed ds)) =
     real (length (filter is_potentially_hazardous_asteroid (all_neos feed)))"
  by (simp_all add: summarizeNeos_def Let_def loop_totalCount loop_hazardousCount loop_lt3
        loop_gte3lt4 loop_gte4 neo_vars_init_def)

lemma summary_min:
  "minMissDistanceKm (summarizeNeos feed ds) =
     (case foldl update_min PosInf (map missKm (all_neos feed)) of Fin km \<Rightarrow> km | _ \<Rightarrow> 0)"
  by (simp add: summarizeNeos_def Let_def loop_min neo_vars_init_def)

subsection \<open>Three small feeds\<close>

definition neo_with_miss :: "string \<Rightarrow> bool \<Rightarrow> real \<Rightarrow> string \<Rightarrow> NasaNeo" where
  "neo_with_miss nm hz diam km =
     \<lparr>neo_name = nm, is_potentially_hazardous_asteroid = hz,
      estimated_diameter_max = Some diam,
      close_approach_data =
        Some [\<lparr>close_approach_date = ''2024-01-01'', miss_distance_kilometers = Some km\<rparr>]\<rparr>"

definition feed_single :: NasaNeoFeed where
  "feed_single =
     \<lparr>near_earth_objects =
        Some [(''2024-01-01'', Some [neo_with_miss ''A'' False 50 ''5000000''])]\<rparr>"

definition feed_negative_miss :: NasaNeoFeed where
  "feed_negative_miss =
     \<lparr>near_earth_objects =
        Some [(''2024-01-01'', Some [neo_with_miss ''A'' False 50 ''-5''])]\<rparr>"

definition feed_minus_infinity :: NasaNeoFeed where
  "feed_minus_infinity =
     \<lparr>near_earth_objects =
        Some [(''2024-01-01'',
               Some [neo_with_miss ''A'' False 50 ''-Infinity'',
                     neo_with_miss ''B'' True 120 ''5''])]\<rparr>"

lemmas summarize_eval =
  summarizeNeos_def all_neos_def neo_step_def neo_vars_init_def missKm_def magGuess_def
  update_min_def neo_with_miss_def valid_misses_def valid_miss_def List.map_filter_simps
  Let_def js_Number_eval

section \<open>Properties of the summary\<close>

text \<open>
  Claim C10. For every feed the middle bucket \<open>gte3lt4\<close> of the summary is \<open>0\<close>:
  the synthetic magnitude is 4.0 for a hazardous object and 2.9 for any other, so
  \<open>lt3\<close> counts the objects that are not hazardous and \<open>gte4\<close> equals
  \<open>hazardousCount\<close>.
\<close>

theorem summarizeNeos_middle_bucket_empty:
  "gte3lt4 (buckets (summarizeNeos feed ds)) = 0 \<and>
   lt3 (buckets (summarizeNeos feed ds)) =
     real (length (filter (\<lambda>n. \<not> is_potentially_hazardous_asteroid n) (all_neos feed))) \<and>
   gte4 (buckets (summarizeNeos feed ds)) = hazardousCount (summarizeNeos feed ds)"
  by (simp only: summary_fields simp_thms)

text \<open>
  Claim C2, as stated: for every feed the summary has
  \<open>hazardousCount \<le> totalCount\<close>, \<open>lt3 + gte3lt4 + gte4 = totalCount\<close> and
  \<open>minMissDistanceKm \<ge> 0\<close>. It fails on a feed whose only object has the
  kilometers string \<open>-5\<close>: \<open>Number\<close> converts it to \<open>-5\<close>, which is below
  the running minimum, and nothing in the loop rejects a negative distance.
\<close>

theorem summarizeNeos_negative_minMiss:
  "\<not> (hazardousCount (summarizeNeos feed_negative_miss (Fin 1))
          \<le> totalCount (summarizeNeos feed_negative_miss (Fin 1)) \<and>
       lt3 (buckets (summarizeNeos feed_negative_miss (Fin 1)))
         + gte3lt4 (buckets (summarizeNeos feed_negative_miss (Fin 1)))
         + gte4 (buckets (summarizeNeos feed_negative_miss (Fin 1)))
          = totalCount (summarizeNeos feed_negative_miss (Fin 1)) \<and>
       0 \<le> minMissDistanceKm (summarizeNeos feed_negative_miss (Fin 1)))"
proof -
  have "minMissDistanceKm (summarizeNeos feed_negative_miss (Fin 1)) = - 5"
    by (simp add: feed_negative_miss_def summarize_eval)
  then show ?thesis by simp
qed

text \<open>
  Claim C2, amended: for every feed the summary has
  \<open>hazardousCount \<le> totalCount\<close> and \<open>lt3 + gte3lt4 + gte4 = totalCount\<close>; and
  \<open>minMissDistanceKm \<ge> 0\<close> holds when no object's first close-approach distance
  converts to a negative finite number.
\<close>

theorem summarizeNeos_invariants:
  "hazardousCount (summarizeNeos feed ds) \<le> totalCount (summarizeNeos feed ds) \<and>
   lt3 (buckets (summarizeNeos feed ds)) + gte3lt4 (buckets (summarizeNeos feed ds))
     + gte4 (buckets (summarizeNeos feed ds)) = totalCount (summarizeNeos feed ds) \<and>
   ((\<forall>km \<in> set (valid_misses feed). 0 \<le> km) \<longrightarrow>
      0 \<le> minMissDistanceKm (summarizeNeos feed ds))"
proof (intro conjI impI)
  show "hazardousCount (summarizeNeos feed ds) \<le> totalCount (summarizeNeos feed ds)"
    by (simp add: summary_fields)
next
  have "real (length (filter (\<lambda>n. \<not> is_potentially_hazardous_asteroid n) (all_neos feed)))
          + real (length (filter is_potentially_hazardous_asteroid (all_neos feed)))
        = real (length (all_neos feed))"
    using length_filter_split [of is_potentially_hazardous_asteroid "all_neos feed"]
    by linarith
  then show "lt3 (buckets (summarizeNeos feed ds)) + gte3lt4 (buckets (summarizeNeos feed ds))
     + gte4 (buckets (summarizeNeos feed ds)) = totalCount (summarizeNeos feed ds)"
    by (simp add: summary_fields)
next
  assume nonneg: "\<forall>km \<in> set (valid_misses feed). 0 \<le> km"
  let ?ks = "map missKm (all_neos feed)"
  show "0 \<le> minMissDistanceKm (summarizeNeos feed ds)"
  proof (cases "NegInf \<in> set ?ks")
    case True
    then have "foldl update_min PosInf ?ks = NegInf"
      by (rule run_min_has_NegInf) simp
    then show ?thesis by (simp add: summary_min)
  next
    case False
    show ?thesis
    proof (cases "finite_vals ?ks = []")
      case True
      with False show ?thesis by (simp add: summary_min run_min_PosInf)
    next
      case nonempty: False
      then have "Min (set (finite_vals ?ks)) \<in> set (finite_vals ?ks)"
        by (intro Min_in) simp_all
      with nonneg have "0 \<le> Min (set (finite_vals ?ks))"
        by (simp add: valid_misses_finite_vals)
      with False nonempty show ?thesis by (simp add: summary_min run_min_PosInf)
    qed
  qed
qed

theorem summarizeNeos_invariants_witness:
  "valid_misses feed_single = [5000000] \<and>
   hazardousCount (summarizeNeos feed_single (Fin 1)) \<le> totalCount (summarizeNeos feed_single (Fin 1)) \<and>
   lt3 (buckets (summarizeNeos feed_single (Fin 1)))
     + gte3lt4 (buckets (summarizeNeos feed_single (Fin 1)))
     + gte4 (buckets (summarizeNeos feed_single (Fin 1)))
     = totalCount (summarizeNeos feed_single (Fin 1)) \<and>
   0 \<le> minMissDistanceKm (summarizeNeos feed_single (Fin 1))"
proof -
  have v: "valid_misses feed_single = [5000000]"
    by (simp add: feed_single_def summarize_eval)
  then have h: "\<forall>km \<in> set (valid_misses feed_single). 0 \<le> km"
    by simp
  show ?thesis
    using v h summarizeNeos_invariants [of feed_single "Fin 1"] by blast
qed

text \<open>
  Claim C7, as stated: \<open>minMissDistanceKm\<close> is the minimum, over the objects, of the
  kilometers value of the first close-approach entry, entries with a missing or
  unparseable distance left out, and \<open>0\<close> when no object has a valid distance. It
  fails on a feed of two objects with the strings \<open>-Infinity\<close> and \<open>5\<close>: the only
  valid distance is \<open>5\<close>, but the running minimum becomes \<open>-Infinity\<close>, which the
  final \<open>Number.isFinite\<close> test replaces by \<open>0\<close>.
\<close>

theorem summarizeNeos_minus_infinity:
  "valid_misses feed_minus_infinity = [5] \<and>
   minMissDistanceKm (summarizeNeos feed_minus_infinity (Fin 1)) = 0"
  by (simp add: feed_minus_infinity_def summarize_eval)

text \<open>
  Claim C7, amended: \<open>minMissDistanceKm\<close> is \<open>0\<close> when the kilometers string of some
  object's first close-approach entry converts to \<open>-Infinity\<close>; otherwise it is the
  minimum of the valid distances (first entry only; absent, empty, unparseable and
  infinite ones left out), and \<open>0\<close> when there is none.
\<close>

theorem summarizeNeos_minMiss:
  "minMissDistanceKm (summarizeNeos feed ds) =
     (if NegInf \<in> set (map missKm (all_neos feed)) then 0
      else if valid_misses feed = [] then 0
      else Min (set (valid_misses feed)))"
proof (cases "NegInf \<in> set (map missKm (all_neos feed))")
  case True
  then have "foldl update_min PosInf (map missKm (all_neos feed)) = NegInf"
    by (rule run_min_has_NegInf) simp
  with True show ?thesis by (simp add: summary_min)
next
  case False
  then show ?thesis
    by (simp add: summary_min run_min_PosInf valid_misses_finite_vals)
qed

section \<open>Lemmas on binary64 rounding\<close>

lemma pow2_powr: "pow2 e = 2 powr (real_of_int e)"
  by (simp add: pow2_def powr_int)

lemma pow2_pos: "0 < pow2 e"
  by (simp add: pow2_powr)

lemma pow2_mono: "a \<le> b \<Longrightarrow> pow2 a \<le> pow2 b"
  by (simp add: pow2_powr)

lemma pow2_add: "pow2 (a + b) = pow2 a * pow2 b"
  by (simp add: pow2_powr powr_add)

lemma binade_from_range: "- 1022 \<le> e \<Longrightarrow> - 1022 \<le> binade_from e x \<and> binade_from e x \<le> e"
proof (induction e x rule: binade_from.induct)
  case (1 e x)
  then show ?case
    by (subst (1 2) binade_from.simps) auto
qed

lemma binade_from_lower:
  "- 1022 < binade_from e x \<Longrightarrow> pow2 (binade_from e x) \<le> x"
proof (induction e x rule: binade_from.induct)
  case (1 e x)
  show ?case
  proof (cases "e \<le> - 1022")
    case True
    with "1.prems" show ?thesis by (subst (asm) binade_from.simps) simp
  next
    case False
    show ?thesis
    proof (cases "pow2 e \<le> x")
      case True
      with False show ?thesis by (subst binade_from.simps) simp
    next
      case no: False
      have eq: "binade_from e x = binade_from (e - 1) x"
        using False no by (subst binade_from.simps) simp
      from "1.IH" [OF False no] "1.prems" show ?thesis by (simp add: eq)
    qed
  qed
qed

lemma binade_from_upper:
  "x < pow2 (e + 1) \<Longrightarrow> x < pow2 (binade_from e x + 1)"
proof (induction e x rule: binade_from.induct)
  case (1 e x)
  show ?case
  proof (cases "e \<le> - 1022")
    case True
    then have "binade_from e x = - 1022" by (subst binade_from.simps) simp
    moreover have "pow2 (e + 1) \<le> pow2 (- 1022 + 1)" using True by (intro pow2_mono) simp
    ultimately show ?thesis using "1.prems" by simp
  next
    case False
    show ?thesis
    proof (cases "pow2 e \<le> x")
      case True
      with False have "binade_from e x = e" by (subst binade_from.simps) simp
      with "1.prems" show ?thesis by simp
    next
      case no: False
      have eq: "binade_from e x = binade_from (e - 1) x"
        using False no by (subst binade_from.simps) simp
      from no have "x < pow2 (e - 1 + 1)" by simp
      from "1.IH" [OF False no this] show ?thesis by (simp add: eq)
    qed
  qed
qed

lemma binade_range: "- 1022 \<le> binade x" "binade x \<le> 1023"
  using binade_from_range [of 1023 x] by (simp_all add: binade_def)

lemma binade_lower: "- 1022 < binade x \<Longrightarrow> pow2 (binade x) \<le> x"
  unfolding binade_def by (rule binade_from_lower)

lemma binade_upper: "binade x < 1023 \<Longrightarrow> x < pow2 (binade x + 1)"
proof -
  assume less: "binade x < 1023"
  have "\<not> pow2 1023 \<le> x"
  proof
    assume "pow2 1023 \<le> x"
    then have "binade x = 1023" unfolding binade_def by (subst binade_from.simps) simp
    with less show False by simp
  qed
  then have "binade_from 1023 x = binade_from 1022 x"
    by (subst binade_from.simps) simp
  moreover have "x < pow2 (1022 + 1)" using \<open>\<not> pow2 1023 \<le> x\<close> by simp
  ultimately show ?thesis
    using binade_from_upper [of x 1022] by (simp add: binade_def)
qed

lemma binade_mono: "x \<le> y \<Longrightarrow> binade x \<le> binade y"
proof (rule ccontr)
  assume le: "x \<le> y" and "\<not> binade x \<le> binade y"
  then have gt: "binade y < binade x" by simp
  with binade_range [of y] have "- 1022 < binade x" by linarith
  then have "pow2 (binade x) \<le> x" by (rule binade_lower)
  moreover from gt binade_range [of x] have "binade y < 1023" by linarith
  then have "y < pow2 (binade y + 1)" by (rule binade_upper)
  moreover have "pow2 (binade y + 1) \<le> pow2 (binade x)" using gt by (intro pow2_mono) simp
  ultimately show False using le by linarith
qed

lemma rne_cases: "rne q = \<lfloor>q\<rfloor> \<or> rne q = \<lfloor>q\<rfloor> + 1"
  by (simp add: rne_def)

lemma rne_of_int: "rne (of_int n) = n"
  by (simp add: rne_def)

lemma rne_mono: "q \<le> q' \<Longrightarrow> rne q \<le> rne q'"
proof (cases "\<lfloor>q\<rfloor> = \<lfloor>q'\<rfloor>")
  case True
  assume "q \<le> q'"
  then show ?thesis unfolding rne_def True by (auto split: if_splits)
next
  case False
  assume "q \<le> q'"
  then have "\<lfloor>q\<rfloor> \<le> \<lfloor>q'\<rfloor>" by (rule floor_mono)
  with False have "\<lfloor>q\<rfloor> + 1 \<le> \<lfloor>q'\<rfloor>" by simp
  moreover have "rne q \<le> \<lfloor>q\<rfloor> + 1" using rne_cases [of q] by auto
  moreover have "\<lfloor>q'\<rfloor> \<le> rne q'" using rne_cases [of q'] by auto
  ultimately show ?thesis by linarith
qed

lemma round_mag_nonneg: "0 \<le> x \<Longrightarrow> 0 \<le> round_mag x"
proof -
  assume "0 \<le> x"
  then have "0 \<le> x / pow2 (binade x - 52)" using pow2_pos [of "binade x - 52"] by simp
  then have "rne 0 \<le> rne (x / pow2 (binade x - 52))" by (rule rne_mono)
  then have "0 \<le> rne (x / pow2 (binade x - 52))" using rne_of_int [of 0] by simp
  then show ?thesis using pow2_pos [of "binade x - 52"] by (simp add: round_mag_def)
qed

lemma pow2_53: "pow2 (e + 1) = real_of_int (2 ^ 53) * pow2 (e - 52)"
proof -
  have "e + 1 = 53 + (e - 52)" by simp
  then have "pow2 (e + 1) = pow2 53 * pow2 (e - 52)" by (simp only: pow2_add)
  then show ?thesis by (simp add: pow2_def)
qed

lemma pow2_52: "pow2 e = real_of_int (2 ^ 52) * pow2 (e - 52)"
proof -
  have "e = 52 + (e - 52)" by simp
  then have "pow2 e = pow2 52 * pow2 (e - 52)" by (simp only: pow2_add [symmetric])
  then show ?thesis by (simp add: pow2_def)
qed

lemma round_mag_upper: "binade x < 1023 \<Longrightarrow> round_mag x \<le> pow2 (binade x + 1)"
proof -
  let ?u = "pow2 (binade x - 52)"
  assume "binade x < 1023"
  then have "x < pow2 (binade x + 1)" by (rule binade_upper)
  then have "x / ?u \<le> real_of_int (2 ^ 53)"
    using pow2_pos [of "binade x - 52"] by (simp add: pow2_53 [of "binade x"] pos_divide_le_eq)
  then have "rne (x / ?u) \<le> rne (real_of_int (2 ^ 53))" by (rule rne_mono)
  then have "rne (x / ?u) \<le> 2 ^ 53" by (simp only: rne_of_int)
  then have "real_of_int (rne (x / ?u)) \<le> real_of_int (2 ^ 53)" by (simp only: of_int_le_iff)
  then have "real_of_int (rne (x / ?u)) * ?u \<le> real_of_int (2 ^ 53) * ?u"
    using pow2_pos [of "binade x - 52"] by (simp only: mult_le_cancel_right_pos)
  then show ?thesis by (simp only: round_mag_def pow2_53 [of "binade x"])
qed

lemma round_mag_lower: "- 1022 < binade x \<Longrightarrow> pow2 (binade x) \<le> round_mag x"
proof -
  let ?u = "pow2 (binade x - 52)"
  assume "- 1022 < binade x"
  then have "pow2 (binade x) \<le> x" by (rule binade_lower)
  then have "real_of_int (2 ^ 52) \<le> x / ?u"
    using pow2_pos [of "binade x - 52"] by (simp add: pow2_52 [of "binade x"] pos_le_divide_eq)
  then have "rne (real_of_int (2 ^ 52)) \<le> rne (x / ?u)" by (rule rne_mono)
  then have "2 ^ 52 \<le> rne (x / ?u)" by (simp only: rne_of_int)
  then have "real_of_int (2 ^ 52) \<le> real_of_int (rne (x / ?u))" by (simp only: of_int_le_iff)
  then have "real_of_int (2 ^ 52) * ?u \<le> real_of_int (rne (x / ?u)) * ?u"
    using pow2_pos [of "binade x - 52"] by (simp only: mult_le_cancel_right_pos)
  then show ?thesis by (simp only: round_mag_def pow2_52 [of "binade x"])
qed

lemma round_mag_mono: "x \<le> y \<Longrightarrow> round_mag x \<le> round_mag y"
proof -
  assume le: "x \<le> y"
  then have b: "binade x \<le> binade y" by (rule binade_mono)
  show ?thesis
  proof (cases "binade x = binade y")
    case True
    let ?u = "pow2 (binade y - 52)"
    have "x / ?u \<le> y / ?u" using le pow2_pos [of "binade y - 52"] by (simp add: divide_right_mono)
    then have "rne (x / ?u) \<le> rne (y / ?u)" by (rule rne_mono)
    then have "real_of_int (rne (x / ?u)) * ?u \<le> real_of_int (rne (y / ?u)) * ?u"
      using pow2_pos [of "binade y - 52"] by (simp add: mult_right_mono)
    then show ?thesis by (simp add: round_mag_def True)
  next
    case False
    with b have less: "binade x < binade y" by simp
    with binade_range [of y] have "binade x < 1023" by linarith
    then have "round_mag x \<le> pow2 (binade x + 1)" by (rule round_mag_upper)
    also have "\<dots> \<le> pow2 (binade y)" using less by (intro pow2_mono) simp
    also have "\<dots> \<le> round_mag y"
      using less binade_range [of x] by (intro round_mag_lower) linarith
    finally show ?thesis .
  qed
qed

lemma fl_not_NaN: "fl x \<noteq> NaN"
  by (simp add: fl_def)

lemma fl_mono: "x \<le> y \<Longrightarrow> js_le (fl x) (fl y)"
proof -
  assume le: "x \<le> y"
  consider "0 \<le> x" | "x < 0" "0 \<le> y" | "y < 0" by linarith
  then show ?thesis
  proof cases
    case 1
    with le have "0 \<le> y" by simp
    with 1 round_mag_mono [OF le] show ?thesis by (simp add: fl_def)
  next
    case 2
    have "0 \<le> round_mag (- x)" using 2 by (intro round_mag_nonneg) simp
    moreover have "0 \<le> round_mag y" using 2 by (intro round_mag_nonneg)
    ultimately show ?thesis using 2 by (simp add: fl_def)
  next
    case 3
    with le have "x < 0" by simp
    have "round_mag (- y) \<le> round_mag (- x)" using le by (intro round_mag_mono) simp
    with 3 \<open>x < 0\<close> show ?thesis by (simp add: fl_def)
  qed
qed

lemma binade_eq:
  assumes "- 1022 \<le> e" "e \<le> 1023" "pow2 e \<le> x" "x < pow2 (e + 1)"
  shows "binade x = e"
proof (rule ccontr)
  assume "binade x \<noteq> e"
  then consider "e < binade x" | "binade x < e" by linarith
  then show False
  proof cases
    case 1
    with assms(1) have "- 1022 < binade x" by simp
    then have "pow2 (binade x) \<le> x" by (rule binade_lower)
    moreover have "pow2 (e + 1) \<le> pow2 (binade x)" using 1 by (intro pow2_mono) simp
    ultimately show False using assms(4) by linarith
  next
    case 2
    with assms(2) have "binade x < 1023" by simp
    then have "x < pow2 (binade x + 1)" by (rule binade_upper)
    moreover have "pow2 (binade x + 1) \<le> pow2 e" using 2 by (intro pow2_mono) simp
    ultimately show False using assms(3) by linarith
  qed
qed

lemma fl_binade:
  assumes "- 1022 \<le> e" "e < 1023" "pow2 e \<le> x" "x < pow2 (e + 1)"
  shows "fl x = Fin (real_of_int (rne (x / pow2 (e - 52))) * pow2 (e - 52))"
proof -
  have b: "binade x = e" using assms by (intro binade_eq) simp_all
  have "0 < x" using assms(3) pow2_pos [of e] by linarith
  have "round_mag x \<le> pow2 (binade x + 1)" using assms(2) b by (intro round_mag_upper) simp
  also have "\<dots> \<le> pow2 1023" unfolding b using assms(2) by (intro pow2_mono) simp
  also have "\<dots> < pow2 1024" by (simp add: pow2_def)
  finally have "\<not> pow2 1024 \<le> round_mag x" by simp
  then show ?thesis using \<open>0 < x\<close> by (simp add: fl_def round_mag_def b)
qed

lemma binade_subnormal: "x < pow2 (- 1021) \<Longrightarrow> binade x = - 1022"
proof (rule ccontr)
  assume small: "x < pow2 (- 1021)" and "binade x \<noteq> - 1022"
  with binade_range(1) [of x] have big: "- 1022 < binade x" by linarith
  then have "pow2 (binade x) \<le> x" by (rule binade_lower)
  moreover have "pow2 (- 1021) \<le> pow2 (binade x)" using big by (intro pow2_mono) simp
  ultimately show False using small by linarith
qed

lemma fl_zero: "fl 0 = Fin 0"
proof -
  have "binade 0 = - 1022" using pow2_pos [of "- 1021"] by (intro binade_subnormal)
  then have "round_mag 0 = 0" by (simp add: round_mag_def rne_def)
  then show ?thesis by (simp add: fl_def pow2_def)
qed

lemma fl_minus: "fl (- x) = js_neg (fl x)"
proof -
  consider "0 < x" | "x = 0" | "x < 0" by linarith
  then show ?thesis
  proof cases
    case 1
    then show ?thesis by (simp add: fl_def)
  next
    case 2
    then show ?thesis by (simp add: fl_zero)
  next
    case 3
    then show ?thesis by (simp add: fl_def)
  qed
qed

lemma fl_top: "js_le (fl x) PosInf" and fl_bot: "js_le NegInf (fl x)"
  by (simp_all add: fl_def)

lemmas fl_binades =
  fl_binade [where e = "- 5"] fl_binade [where e = "- 4"] fl_binade [where e = "- 3"]
  fl_binade [where e = "- 2"] fl_binade [where e = "- 1"] fl_binade [where e = 0]
  fl_binade [where e = 1] fl_binade [where e = 2] fl_binade [where e = 3]
  fl_binade [where e = 4]

text \<open>
  Two numbers of which the second is not below the first, or one of which is \<open>NaN\<close>:
  the relation that \<open>+\<close> and \<open>Math.round\<close> hand on.
\<close>

definition no_drop :: "jsnum \<Rightarrow> jsnum \<Rightarrow> bool" where
  "no_drop a b = (isNaN a \<or> isNaN b \<or> js_le a b)"

lemma add64_no_drop: "no_drop a b \<Longrightarrow> no_drop (add64 a c) (add64 b c)"
  by (cases a; cases b; cases c) (simp_all add: no_drop_def fl_mono fl_top fl_bot fl_not_NaN)

lemma Math_round_no_drop: "no_drop a b \<Longrightarrow> no_drop (Math_round a) (Math_round b)"
proof (cases a; cases b)
  fix x y
  assume ab: "a = Fin x" "b = Fin y" and "no_drop a b"
  then have "x \<le> y" by (simp add: no_drop_def)
  then have "round x \<le> round y" by (rule round_mono)
  moreover have "round z = (if z - of_int \<lfloor>z\<rfloor> < 1 / 2 then \<lfloor>z\<rfloor> else \<lfloor>z\<rfloor> + 1)" for z :: real
    unfolding round_def by (simp add: floor_eq_iff) linarith
  ultimately show ?thesis by (simp add: ab no_drop_def)
qed (simp_all add: no_drop_def)

lemma no_drop_not_less: "no_drop a b \<Longrightarrow> \<not> js_lt b a"
  by (cases a; cases b) (simp_all add: no_drop_def)

section \<open>Properties of the threat score\<close>

lemma level_medium: "js_le (Fin 10) s \<Longrightarrow> (\<not> js_le (Fin 18) s) = js_lt s (Fin 18)"
  by (cases s) auto

lemma level_high: "js_le (Fin 18) s \<Longrightarrow> js_le (Fin 10) s"
  by (cases s) auto

text \<open>
  Claim C1. For every summary, ISS distance and hours to launch, the score is
  \<open>round (hazardousCount * 3 + totalCount * 0.2 + missRisk * 4 + sizeRisk * 2 + issRisk * 2
  + launchRisk * 1)\<close> with \<open>missRisk = 0\<close> if \<open>minMissDistanceKm\<close> is exactly \<open>0\<close> and
  \<open>max 0 (3 - minMissDistanceKm / 1000000)\<close> otherwise,
  \<open>sizeRisk = min 5 (maxEstimatedDiameterMeters / 100)\<close>,
  \<open>issRisk = max 0 (2 - issDistanceKm / 2000)\<close> and
  \<open>launchRisk = max 0 (2 - hours / 24)\<close>, every operation being the one of binary64,
  from left to right; the level is \<open>HIGH\<close> iff the score is at least 18, \<open>MEDIUM\<close> iff
  it is at least 10 and below 18, and \<open>LOW\<close> otherwise.
\<close>

theorem computeThreat_formula:
  "score (computeThreat neo issDistanceKm hours) =
     Math_round
       (add64 (add64 (add64 (add64 (add64
          (mul64 (Fin (hazardousCount neo)) (Fin 3))
          (mul64 (Fin (totalCount neo)) (fl 0.2)))
          (mul64 (if minMissDistanceKm neo = 0 then Fin 0
                  else js_max (Fin 0)
                         (sub64 (Fin 3) (div64 (Fin (minMissDistanceKm neo)) 1000000)))
                 (Fin 4)))
          (mul64 (js_min (Fin 5) (div64 (Fin (maxEstimatedDiameterMeters neo)) 100)) (Fin 2)))
          (mul64 (js_max (Fin 0) (sub64 (Fin 2) (div64 issDistanceKm 2000))) (Fin 2)))
          (mul64 (js_max (Fin 0) (sub64 (Fin 2) (div64 hours 24))) (Fin 1))) \<and>
   (level (computeThreat neo issDistanceKm hours) = HIGH
      \<longleftrightarrow> js_le (Fin 18) (score (computeThreat neo issDistanceKm hours))) \<and>
   (level (computeThreat neo issDistanceKm hours) = MEDIUM
      \<longleftrightarrow> js_le (Fin 10) (score (computeThreat neo issDistanceKm hours))
          \<and> js_lt (score (computeThreat neo issDistanceKm hours)) (Fin 18)) \<and>
   (level (computeThreat neo issDistanceKm hours) = LOW
      \<longleftrightarrow> \<not> js_le (Fin 10) (score (computeThreat neo issDistanceKm hours)))"
proof -
  define s where "s = score (computeThreat neo issDistanceKm hours)"
  have lv: "level (computeThreat neo issDistanceKm hours) =
              (if js_le (Fin 18) s then HIGH else if js_le (Fin 10) s then MEDIUM else LOW)"
    by (simp add: s_def computeThreat_def Let_def)
  have "(level (computeThreat neo issDistanceKm hours) = HIGH) = js_le (Fin 18) s"
    by (simp add: lv)
  moreover have "(level (computeThreat neo issDistanceKm hours) = MEDIUM)
                   = (js_le (Fin 10) s \<and> js_lt s (Fin 18))"
    using level_medium [of s] level_high [of s] by (auto simp: lv)
  moreover have "(level (computeThreat neo issDistanceKm hours) = LOW) = (\<not> js_le (Fin 10) s)"
    using level_high [of s] by (auto simp: lv)
  moreover have "s = Math_round
       (add64 (add64 (add64 (add64 (add64
          (mul64 (Fin (hazardousCount neo)) (Fin 3))
          (mul64 (Fin (totalCount neo)) (fl 0.2)))
          (mul64 (if minMissDistanceKm neo = 0 then Fin 0
                  else js_max (Fin 0)
                         (sub64 (Fin 3) (div64 (Fin (minMissDistanceKm neo)) 1000000)))
                 (Fin 4)))
          (mul64 (js_min (Fin 5) (div64 (Fin (maxEstimatedDiameterMeters neo)) 100)) (Fin 2)))
          (mul64 (js_max (Fin 0) (sub64 (Fin 2) (div64 issDistanceKm 2000))) (Fin 2)))
          (mul64 (js_max (Fin 0) (sub64 (Fin 2) (div64 hours 24))) (Fin 1)))"
    by (simp add: s_def computeThreat_def Let_def)
  ultimately show ?thesis unfolding s_def by blast
qed

text \<open>
  The rounding matters: for no hazardous object, one object in all, a diameter of 410 m,
  a miss distance of 0, the ISS 3900 km away and a launch in 24 hours the sum is
  \<open>9.499999999999998\<close> in binary64, and the score is 9 (the sum of the exact terms is
  9.5, which would round to 10); a second input gives 17.499999999999996 and the score
  17. With \<open>NaN\<close> as the distance the score is \<open>NaN\<close>.
\<close>

lemma computeThreat_example:
  "computeThreat
     \<lparr>days = Fin 1, totalCount = 1, hazardousCount = 0, maxEstimatedDiameterMeters = 410,
      minMissDistanceKm = 0, buckets = \<lparr>lt3 = 1, gte3lt4 = 0, gte4 = 0\<rparr>\<rparr> (Fin 3900) (Fin 24)
   = \<lparr>score = Fin 9, level = LOW\<rparr>"
  by (simp add: computeThreat_def Let_def sub64_def fl_zero fl_binades pow2_def rne_def)

lemma computeThreat_example_medium:
  "computeThreat
     \<lparr>days = Fin 1, totalCount = 18, hazardousCount = 1, maxEstimatedDiameterMeters = 485,
      minMissDistanceKm = 0, buckets = \<lparr>lt3 = 17, gte3lt4 = 0, gte4 = 1\<rparr>\<rparr> (Fin 3300) (Fin 36)
   = \<lparr>score = Fin 17, level = MEDIUM\<rparr>"
  by (simp add: computeThreat_def Let_def sub64_def fl_zero fl_binades pow2_def rne_def)

lemma computeThreat_NaN_distance:
  "computeThreat neo NaN hours = \<lparr>score = NaN, level = LOW\<rparr>"
proof -
  have "add64 (add64 a NaN) b = NaN" for a b
    by (cases a) simp_all
  then show ?thesis
    by (simp add: computeThreat_def Let_def sub64_def)
qed

subsection \<open>Finite terms of the sum\<close>

lemma pow2_strict_mono: "a < b \<Longrightarrow> pow2 a < pow2 b"
  by (simp add: pow2_powr)

lemma round_mag_pow2:
  assumes "- 1022 \<le> k" "k \<le> 1023"
  shows "round_mag (pow2 k) = pow2 k"
proof -
  have "pow2 k < pow2 (k + 1)" by (intro pow2_strict_mono) simp
  with assms have b: "binade (pow2 k) = k" by (intro binade_eq) simp_all
  have q: "pow2 k / pow2 (k - 52) = real_of_int (2 ^ 52)"
    using pow2_pos [of "k - 52"] by (simp add: pow2_52 [of k])
  have "round_mag (pow2 k) = real_of_int (rne (pow2 k / pow2 (k - 52))) * pow2 (k - 52)"
    by (simp only: round_mag_def b)
  also have "\<dots> = real_of_int (2 ^ 52) * pow2 (k - 52)"
    by (simp only: q rne_of_int)
  also have "\<dots> = pow2 k" by (simp only: pow2_52 [of k])
  finally show ?thesis .
qed

lemma fl_bound:
  assumes "- 1022 \<le> k" "k \<le> 1023" "\<bar>x\<bar> \<le> pow2 k"
  shows "\<exists>y. fl x = Fin y \<and> \<bar>y\<bar> \<le> pow2 k"
proof -
  have "round_mag \<bar>x\<bar> \<le> round_mag (pow2 k)" using assms(3) by (rule round_mag_mono)
  then have le: "round_mag \<bar>x\<bar> \<le> pow2 k" using assms(1,2) by (simp add: round_mag_pow2)
  have "pow2 k \<le> pow2 1023" using assms(2) by (rule pow2_mono)
  also have "\<dots> < pow2 1024" by (intro pow2_strict_mono) simp
  finally have small: "\<not> pow2 1024 \<le> round_mag \<bar>x\<bar>" using le by linarith
  have nonneg: "0 \<le> round_mag \<bar>x\<bar>" by (intro round_mag_nonneg) simp
  show ?thesis
  proof (cases "0 \<le> x")
    case True
    with le small nonneg show ?thesis by (simp add: fl_def)
  next
    case False
    then have "\<bar>x\<bar> = - x" by simp
    with False le small nonneg show ?thesis by (simp add: fl_def)
  qed
qed

lemma pow2_1020:
  "pow2 1021 = 2 * pow2 1020" "pow2 1022 = 4 * pow2 1020" "pow2 1023 = 8 * pow2 1020"
  "pow2 1024 = 16 * pow2 1020" "8 \<le> pow2 1020"
proof -
  show "pow2 1021 = 2 * pow2 1020" using pow2_add [of 1 1020] by (simp add: pow2_def)
  show "pow2 1022 = 4 * pow2 1020" using pow2_add [of 2 1020] by (simp add: pow2_def)
  show "pow2 1023 = 8 * pow2 1020" using pow2_add [of 3 1020] by (simp add: pow2_def)
  show "pow2 1024 = 16 * pow2 1020" using pow2_add [of 4 1020] by (simp add: pow2_def)
  have "pow2 3 \<le> pow2 1020" by (intro pow2_mono) simp
  then show "8 \<le> pow2 1020" by (simp add: pow2_def)
qed

lemma quotient_finite:
  assumes "double_range x" "16 \<le> c"
  shows "\<exists>q. div64 (Fin x) c = Fin q \<and> \<bar>q\<bar> \<le> pow2 1020"
proof -
  have c: "0 < c" using assms(2) by simp
  have "\<bar>x\<bar> \<le> pow2 1020 * 16" using assms(1) by (simp add: double_range_def pow2_1020)
  also have "\<dots> \<le> pow2 1020 * c" using assms(2) pow2_pos [of 1020] by (intro mult_left_mono) simp_all
  finally have "\<bar>x\<bar> / c \<le> pow2 1020" using c by (simp only: pos_divide_le_eq)
  moreover have "\<bar>x / c\<bar> = \<bar>x\<bar> / \<bar>c\<bar>" by (rule abs_divide)
  moreover have "\<bar>c\<bar> = c" using c by simp
  ultimately have "\<bar>x / c\<bar> \<le> pow2 1020" by (simp only:)
  then have "\<exists>q. fl (x / c) = Fin q \<and> \<bar>q\<bar> \<le> pow2 1020"
    by (intro fl_bound) simp_all
  then show ?thesis by (simp only: div64.simps)
qed

lemma risk_term_finite:
  assumes "double_range x" "16 \<le> c" "0 \<le> a" "a \<le> 3" "0 \<le> w" "w \<le> 4"
  shows "\<exists>y. mul64 (js_max (Fin 0) (sub64 (Fin a) (div64 (Fin x) c))) (Fin w) = Fin y"
proof -
  from quotient_finite [OF assms(1,2)]
  obtain q where q: "div64 (Fin x) c = Fin q" and qb: "\<bar>q\<bar> \<le> pow2 1020" by blast
  have "\<bar>a + - q\<bar> \<le> 2 * pow2 1020" using qb assms(3,4) pow2_1020(5) by linarith
  then have "\<bar>a + - q\<bar> \<le> pow2 1021" by (simp only: pow2_1020(1))
  then have "\<exists>r. fl (a + - q) = Fin r \<and> \<bar>r\<bar> \<le> pow2 1021"
    by (intro fl_bound) simp_all
  then obtain r where r: "fl (a + - q) = Fin r" and rb: "\<bar>r\<bar> \<le> pow2 1021" by blast
  have "\<bar>max 0 r\<bar> \<le> 2 * pow2 1020" using rb unfolding pow2_1020(1) by linarith
  then have "\<bar>max 0 r\<bar> * \<bar>w\<bar> \<le> (2 * pow2 1020) * 4"
    using assms(5,6) by (intro mult_mono) simp_all
  then have "\<bar>max 0 r * w\<bar> \<le> pow2 1023" by (simp add: abs_mult pow2_1020(3))
  then have "\<exists>y. fl (max 0 r * w) = Fin y \<and> \<bar>y\<bar> \<le> pow2 1023"
    by (intro fl_bound) simp_all
  then obtain y where y: "fl (max 0 r * w) = Fin y" by blast
  have m: "js_max (Fin 0) (Fin r) = Fin (max 0 r)" by (simp add: max_def)
  have "mul64 (js_max (Fin 0) (sub64 (Fin a) (div64 (Fin x) c))) (Fin w) = Fin y"
    by (simp only: q sub64_def js_neg.simps add64.simps r m mul64.simps y)
  then show ?thesis ..
qed

lemma size_term_finite:
  assumes "double_range x"
  shows "\<exists>y. mul64 (js_min (Fin 5) (div64 (Fin x) 100)) (Fin 2) = Fin y"
proof -
  have "\<exists>q. div64 (Fin x) 100 = Fin q \<and> \<bar>q\<bar> \<le> pow2 1020"
    using assms by (intro quotient_finite) simp_all
  then obtain q where q: "div64 (Fin x) 100 = Fin q" and qb: "\<bar>q\<bar> \<le> pow2 1020" by blast
  have m: "js_min (Fin 5) (Fin q) = Fin (min 5 q)" by (simp add: min_def)
  have "\<bar>min 5 q\<bar> \<le> pow2 1020" using qb pow2_1020(5) by linarith
  then have "\<bar>min 5 q * 2\<bar> \<le> 2 * pow2 1020" by (simp add: abs_mult)
  then have "\<bar>min 5 q * 2\<bar> \<le> pow2 1021" by (simp only: pow2_1020(1))
  then have "\<exists>y. fl (min 5 q * 2) = Fin y \<and> \<bar>y\<bar> \<le> pow2 1021"
    by (intro fl_bound) simp_all
  then obtain y where y: "fl (min 5 q * 2) = Fin y" by blast
  have "mul64 (js_min (Fin 5) (div64 (Fin x) 100)) (Fin 2) = Fin y"
    by (simp only: q m mul64.simps y)
  then show ?thesis ..
qed

lemma fl_0_2: "fl (1 / 5) = Fin (3602879701896397 / 18014398509481984)"
  by (simp add: fl_binade [where e = "- 3"] pow2_def rne_def)

lemma count_term_finite:
  assumes "double_range x"
  shows "\<exists>y. mul64 (Fin x) (fl 0.2) = Fin y"
proof -
  let ?c = "3602879701896397 / 18014398509481984 :: real"
  have "\<bar>x * ?c\<bar> = \<bar>x\<bar> * ?c" by (simp add: abs_mult)
  also have "\<dots> \<le> \<bar>x\<bar> * (1 / 2)" by (intro mult_left_mono) simp_all
  also have "\<dots> \<le> pow2 1023" using assms by (simp add: double_range_def pow2_1020)
  finally have "\<exists>y. fl (x * ?c) = Fin y \<and> \<bar>y\<bar> \<le> pow2 1023"
    by (intro fl_bound) simp_all
  then obtain y where y: "fl (x * ?c) = Fin y" by blast
  have c: "fl 0.2 = Fin ?c" using fl_0_2 by simp
  have "mul64 (Fin x) (fl 0.2) = Fin y"
    by (simp only: c mul64.simps y)
  then show ?thesis ..
qed

lemma add64_Fin_not_NaN: "a \<noteq> NaN \<Longrightarrow> add64 a (Fin y) \<noteq> NaN"
  by (cases a) (simp_all add: fl_not_NaN)

lemma Math_round_not_NaN: "a \<noteq> NaN \<Longrightarrow> Math_round a \<noteq> NaN"
  by (cases a) simp_all

lemma score_not_NaN:
  assumes "double_range (totalCount neo)" "double_range (maxEstimatedDiameterMeters neo)"
    "double_range (minMissDistanceKm neo)" "double_range d" "double_range t"
  shows "score (computeThreat neo (Fin d) (Fin t)) \<noteq> NaN"
proof -
  obtain t2 where t2: "mul64 (Fin (totalCount neo)) (fl 0.2) = Fin t2"
    using count_term_finite [OF assms(1)] by blast
  have "\<exists>y. mul64 (if minMissDistanceKm neo = 0 then Fin 0
            else js_max (Fin 0) (sub64 (Fin 3) (div64 (Fin (minMissDistanceKm neo)) 1000000)))
           (Fin 4) = Fin y"
  proof (cases "minMissDistanceKm neo = 0")
    case True
    then show ?thesis by (simp add: fl_zero)
  next
    case False
    then show ?thesis using risk_term_finite [OF assms(3), of 1000000 3 4] by simp
  qed
  then obtain m4 where m4:
    "mul64 (if minMissDistanceKm neo = 0 then Fin 0
            else js_max (Fin 0) (sub64 (Fin 3) (div64 (Fin (minMissDistanceKm neo)) 1000000)))
           (Fin 4) = Fin m4" ..
  obtain z2 where z2:
    "mul64 (js_min (Fin 5) (div64 (Fin (maxEstimatedDiameterMeters neo)) 100)) (Fin 2) = Fin z2"
    using size_term_finite [OF assms(2)] by blast
  obtain i2 where i2: "mul64 (js_max (Fin 0) (sub64 (Fin 2) (div64 (Fin d) 2000))) (Fin 2) = Fin i2"
    using risk_term_finite [OF assms(4), of 2000 2 2] by auto
  obtain l1 where l1: "mul64 (js_max (Fin 0) (sub64 (Fin 2) (div64 (Fin t) 24))) (Fin 1) = Fin l1"
    using risk_term_finite [OF assms(5), of 24 2 1] by auto
  have "mul64 (Fin (hazardousCount neo)) (Fin 3) \<noteq> NaN" by (simp add: fl_not_NaN)
  then show ?thesis
    unfolding computeThreat_def Let_def
    by (simp only: Threat.simps t2 m4 z2 i2 l1 add64_Fin_not_NaN Math_round_not_NaN
          not_False_eq_True)
qed

text \<open>
  Claim C6. With every other input fixed, the score does not decrease when
  \<open>hazardousCount\<close> grows: for all inputs the score for the larger count is never below
  the score for the smaller one, and when the other numbers are finite doubles it is at
  least as large (\<open><=\<close>).
\<close>

theorem computeThreat_mono_hazardous:
  assumes "hazardousCount neo \<le> h"
  shows "\<not> js_lt (score (computeThreat (neo\<lparr>hazardousCount := h\<rparr>) issDistanceKm hours))
              (score (computeThreat neo issDistanceKm hours)) \<and>
         (double_range (totalCount neo) \<and> double_range (maxEstimatedDiameterMeters neo) \<and>
          double_range (minMissDistanceKm neo) \<and> double_range d \<and> double_range t \<longrightarrow>
            js_le (score (computeThreat neo (Fin d) (Fin t)))
                  (score (computeThreat (neo\<lparr>hazardousCount := h\<rparr>) (Fin d) (Fin t))))"
proof -
  have "hazardousCount neo * 3 \<le> h * 3" using assms by simp
  then have first: "no_drop (mul64 (Fin (hazardousCount neo)) (Fin 3)) (mul64 (Fin h) (Fin 3))"
    by (simp add: no_drop_def fl_mono)
  have nd: "no_drop (score (computeThreat neo i u))
                    (score (computeThreat (neo\<lparr>hazardousCount := h\<rparr>) i u))" for i u
    using first unfolding computeThreat_def Let_def
    by (simp del: mul64.simps add: add64_no_drop Math_round_no_drop)
  have never_below: "\<not> js_lt (score (computeThreat (neo\<lparr>hazardousCount := h\<rparr>) issDistanceKm hours))
              (score (computeThreat neo issDistanceKm hours))"
    using nd [of issDistanceKm hours] by (rule no_drop_not_less)
  have at_least: "js_le (score (computeThreat neo (Fin d) (Fin t)))
                  (score (computeThreat (neo\<lparr>hazardousCount := h\<rparr>) (Fin d) (Fin t)))"
    if "double_range (totalCount neo)" "double_range (maxEstimatedDiameterMeters neo)"
       "double_range (minMissDistanceKm neo)" "double_range d" "double_range t"
  proof -
    have "score (computeThreat neo (Fin d) (Fin t)) \<noteq> NaN"
      using that by (rule score_not_NaN)
    moreover have "score (computeThreat (neo\<lparr>hazardousCount := h\<rparr>) (Fin d) (Fin t)) \<noteq> NaN"
      using that by (intro score_not_NaN) simp_all
    ultimately show ?thesis
      using nd [of "Fin d" "Fin t"]
      by (cases "score (computeThreat neo (Fin d) (Fin t))";
          cases "score (computeThreat (neo\<lparr>hazardousCount := h\<rparr>) (Fin d) (Fin t))")
         (simp_all add: no_drop_def)
  qed
  from never_below at_least show ?thesis by blast
qed

theorem computeThreat_mono_hazardous_witness:
  "hazardousCount (summarizeNeos feed_single (Fin 1)) \<le> 4 \<and>
   double_range (totalCount (summarizeNeos feed_single (Fin 1))) \<and>
   double_range (maxEstimatedDiameterMeters (summarizeNeos feed_single (Fin 1))) \<and>
   double_range (minMissDistanceKm (summarizeNeos feed_single (Fin 1))) \<and>
   double_range 0 \<and>
   js_le (score (computeThreat (summarizeNeos feed_single (Fin 1)) (Fin 0) (Fin 0)))
         (score (computeThreat ((summarizeNeos feed_single (Fin 1))\<lparr>hazardousCount := 4\<rparr>)
                  (Fin 0) (Fin 0)))"
proof -
  have h: "hazardousCount (summarizeNeos feed_single (Fin 1)) \<le> 4"
    by (simp add: feed_single_def summarize_eval)
  have r: "double_range (totalCount (summarizeNeos feed_single (Fin 1)))"
    "double_range (maxEstimatedDiameterMeters (summarizeNeos feed_single (Fin 1)))"
    "double_range (minMissDistanceKm (summarizeNeos feed_single (Fin 1)))"
    "double_range 0"
    by (simp_all add: feed_single_def summarize_eval double_range_def pow2_def)
  show ?thesis
    using h r computeThreat_mono_hazardous [OF h, of "Fin 0" "Fin 0" 0 0] by blast
qed

section \<open>Properties of argument resolution\<close>

lemma js_Number_3: "js_Number ''3'' = Fin 3"
  by (simp add: js_Number_eval)

lemma rejected_days:
  "(js_falsy n \<or> isNaN n \<or> js_lt n (Fin 1)) = (\<not> at_least_one n)"
  by (cases n) (auto simp: js_falsy_def)

definition argv_days_5 :: "string list" where
  "argv_days_5 = [''node'', ''briefing'', ''--city'', ''Pune'', ''--days'', ''5'']"

definition argv_days_fraction :: "string list" where
  "argv_days_fraction = [''node'', ''briefing'', ''--city'', ''Pune'', ''--days'', ''2.5'']"

definition argv_days_word :: "string list" where
  "argv_days_word = [''node'', ''briefing'', ''--city'', ''Pune'', ''--days'', ''many'']"

definition argv_no_days :: "string list" where
  "argv_no_days = [''node'', ''briefing'', ''--city'', ''Pune'']"

text \<open>
  Claim C9, as stated: \<open>--days\<close> is accepted only when its value is a positive
  integer. It fails on \<open>--city Pune --days 2.5\<close>: \<open>Number\<close> converts the value to
  \<open>2.5\<close>, which is not zero, not \<open>NaN\<close> and not below 1, and \<open>parseArgs\<close> returns
  it as \<open>days\<close>; no test asks for an integer.
\<close>

theorem parseArgs_accepts_fraction:
  "parseArgs ''2024-01-01'' argv_days_fraction =
     Inr \<lparr>arg_city = ''Pune'', arg_days = Fin (5 / 2), arg_mode = stealth,
          arg_date = ''2024-01-01''\<rparr> \<and>
   real_of_int \<lfloor>5 / 2 :: real\<rfloor> \<noteq> 5 / 2"
  by (simp add: argv_days_fraction_def parseArgs_eval)

text \<open>
  Claim C9, amended: the text of \<open>days\<close> is the value of \<open>--days\<close>, or \<open>3\<close> when
  the option is absent. When \<open>parseArgs\<close> succeeds, \<open>days\<close> is the \<open>Number\<close> of
  that text and is at least 1 (an integer or not, \<open>Infinity\<close> included); when the
  \<open>Number\<close> of the text is \<open>NaN\<close> or is below 1, \<open>parseArgs\<close> fails with a
  validation error (the missing city, tested first, or the invalid days).
\<close>

theorem parseArgs_days:
  "(parseArgs today argv = Inr a \<longrightarrow>
      arg_days a = js_Number (days_text (parsed_options argv)) \<and> at_least_one (arg_days a)) \<and>
   (\<not> at_least_one (js_Number (days_text (parsed_options argv))) \<longrightarrow>
      parseArgs today argv = Inl Missing_city \<or> parseArgs today argv = Inl Invalid_days) \<and>
   (parsed_options argv ''days'' = None \<longrightarrow>
      js_Number (days_text (parsed_options argv)) = Fin 3)"
proof -
  have accepted: "arg_days a = js_Number (days_text (parsed_options argv)) \<and> at_least_one (arg_days a)"
    if "parseArgs today argv = Inr a"
    using that unfolding parseArgs_def Let_def rejected_days
    by (auto split: option.splits if_splits)
  have rejected: "parseArgs today argv = Inl Missing_city \<or> parseArgs today argv = Inl Invalid_days"
    if "\<not> at_least_one (js_Number (days_text (parsed_options argv)))"
    using that unfolding parseArgs_def Let_def rejected_days
    by (auto split: option.splits if_splits)
  have default: "js_Number (days_text (parsed_options argv)) = Fin 3"
    if "parsed_options argv ''days'' = None"
    using that by (simp add: days_text_def js_Number_3)
  from accepted rejected default show ?thesis by blast
qed

theorem parseArgs_days_witness:
  "parseArgs ''2024-01-01'' argv_days_5 =
     Inr \<lparr>arg_city = ''Pune'', arg_days = Fin 5, arg_mode = stealth, arg_date = ''2024-01-01''\<rparr> \<and>
   js_Number (days_text (parsed_options argv_days_5)) = Fin 5 \<and>
   \<not> at_least_one (js_Number (days_text (parsed_options argv_days_word))) \<and>
   parseArgs ''2024-01-01'' argv_days_word = Inl Invalid_days \<and>
   parsed_options argv_no_days ''days'' = None \<and>
   js_Number (days_text (parsed_options argv_no_days)) = Fin 3"
proof -
  have ok: "parseArgs ''2024-01-01'' argv_days_5 =
     Inr \<lparr>arg_city = ''Pune'', arg_days = Fin 5, arg_mode = stealth, arg_date = ''2024-01-01''\<rparr>"
    by (simp add: argv_days_5_def parseArgs_eval)
  have bad: "\<not> at_least_one (js_Number (days_text (parsed_options argv_days_word)))"
    by (simp add: argv_days_word_def parseArgs_eval)
  have city: "parseArgs ''2024-01-01'' argv_days_word \<noteq> Inl Missing_city"
    by (simp add: argv_days_word_def parseArgs_eval)
  have absent: "parsed_options argv_no_days ''days'' = None"
    by (simp add: argv_no_days_def parseArgs_eval)
  show ?thesis
    using ok bad city absent
      parseArgs_days [of "''2024-01-01''" argv_days_5
        "\<lparr>arg_city = ''Pune'', arg_days = Fin 5, arg_mode = stealth, arg_date = ''2024-01-01''\<rparr>"]
      parseArgs_days [of "''2024-01-01''" argv_days_word]
      parseArgs_days [of "''2024-01-01''" argv_no_days]
    by simp
qed

section \<open>Properties of the date range\<close>























section \<open>Runs of \<open>main\<close>\<close>

text \<open>
  A world in which every endpoint answers, and three variants: no candidate for the
  city, no answer from the ISS endpoint, a launch date that \<open>Date.parse\<close> reads.
\<close>

text \<open>A \<open>Math\<close> library that returns every value correctly rounded.\<close>

definition atan2_real :: "real \<Rightarrow> real \<Rightarrow> real" where
  "atan2_real y x =
     (if 0 < x then arctan (y / x)
      else if x < 0 then (if 0 \<le> y then arctan (y / x) + pi else arctan (y / x) - pi)
      else if 0 < y then pi / 2
      else if y < 0 then - (pi / 2)
      else 0)"

fun atan2_rounded :: "jsnum \<Rightarrow> jsnum \<Rightarrow> jsnum" where
  "atan2_rounded NaN _ = NaN"
| "atan2_rounded _ NaN = NaN"
| "atan2_rounded (Fin y) (Fin x) = fl (atan2_real y x)"
| "atan2_rounded (Fin y) PosInf = Fin 0"
| "atan2_rounded (Fin y) NegInf = fl (if 0 \<le> y then pi else - pi)"
| "atan2_rounded PosInf (Fin x) = fl (pi / 2)"
| "atan2_rounded NegInf (Fin x) = fl (- (pi / 2))"
| "atan2_rounded PosInf PosInf = fl (pi / 4)"
| "atan2_rounded PosInf NegInf = fl (3 * pi / 4)"
| "atan2_rounded NegInf PosInf = fl (- (pi / 4))"
| "atan2_rounded NegInf NegInf = fl (- (3 * pi / 4))"

definition math_rounded :: MathLib where
  "math_rounded =
     \<lparr>Math_sin = (\<lambda>x. case x of Fin r \<Rightarrow> fl (sin r) | _ \<Rightarrow> NaN),
      Math_cos = (\<lambda>x. case x of Fin r \<Rightarrow> fl (cos r) | _ \<Rightarrow> NaN),
      Math_atan2 = atan2_rounded\<rparr>"

definition world_ok :: World where
  "world_ok =
     \<lparr>nominatim_search =
        (\<lambda>c. Some (Response 200 [\<lparr>lat = ''18.52'', lon = ''73.85'', display_name = ''Pune, India''\<rparr>])),
      iss_now =
        Some (Response 200 \<lparr>iss_timestamp = 1704067200, iss_position_latitude = ''10.5'',
                            iss_position_longitude = ''-20.25''\<rparr>),
      launches_next =
        Some (Response 200 \<lparr>launch_name = ''Starlink'', date_utc = ''to be announced'',
                            links_webcast = None\<rparr>),
      planetary_apod =
        (\<lambda>d. Some (Response 200 \<lparr>apod_date = d, apod_title = ''Sky'', media_type = ''image'',
                                 url = ''https://apod.nasa.gov/image.jpg''\<rparr>)),
      neo_feed = (\<lambda>s e. Some (Response 200 feed_single)),
      math = math_rounded,
      Date_parse = (\<lambda>s. if s = ''2024-01-02T00:00:00.000Z'' then Fin 1704153600000 else NaN),
      Date_now = 1704067200000,
      today_utc = ''2024-01-01'',
      now_iso = ''2024-01-01T00:00:00.000Z'',
      write_ok = True\<rparr>"

definition world_no_city :: World where
  "world_no_city = world_ok\<lparr>nominatim_search := (\<lambda>c. Some (Response 200 []))\<rparr>"

definition world_iss_down :: World where
  "world_iss_down = world_ok\<lparr>iss_now := None\<rparr>"


definition args_days_5 :: Args where
  "args_days_5 =
     \<lparr>arg_city = ''Pune'', arg_days = Fin 5, arg_mode = stealth, arg_date = ''2024-01-01''\<rparr>"

lemma parse_days_5: "parseArgs ''2024-01-01'' argv_days_5 = Inr args_days_5"
  by (simp add: argv_days_5_def args_days_5_def parseArgs_eval)

lemma range_days_5:
  "neo_date_range (Fin 5) ''2024-01-01'' = Inr (''2024-01-01'', ''2024-01-05'')"
proof -
  have parsed: "parse_date ''2024-01-01'' = Some (2024, 1, 1)"
    by (simp add: date_eval)
  have sub: "js_sub (neoDays (Fin 5)) (Fin 1) = Fin 4"
    by (simp add: neoDays_def)
  have tr: "js_trunc 5 = 5"
    by (simp add: js_trunc_def)
  have made: "MakeDay 2024 1 5 = (2024, 1, 5)"
    by (simp add: MakeDay_def roll_forward.simps days_in_month_def)
  have range: "in_time_range (2024, 1, 5)"
    by (simp add: in_time_range_def day_number_def DayFromYear_def)
  have str: "take 10 (toISOString (2024, 1, 5)) = ''2024-01-05''"
    by (simp add: toISOString_def pad_digits_numeral digit_char_def)
  show ?thesis
    by (simp add: neo_date_range_def addDays_def parsed sub tr made range str Let_def)
qed

lemma adapters_ok:
  "getCityLocation world_ok ''Pune'' =
     Inr \<lparr>city = ''Pune'', displayName = ''Pune, India'', latitude = Fin (463 / 25),
          longitude = Fin (1477 / 20)\<rparr>"
  "getIssNow world_ok =
     Inr \<lparr>iss_latitude = Fin (21 / 2), iss_longitude = Fin (- (81 / 4)), timestamp = 1704067200\<rparr>"
  "getSpaceXNext world_ok =
     Inr \<lparr>launch_name = ''Starlink'', date_utc = ''to be announced'', links_webcast = None\<rparr>"
  "getApod world_ok ''2024-01-01'' =
     Inr \<lparr>apod_date = ''2024-01-01'', apod_title = ''Sky'', media_type = ''image'',
          url = ''https://apod.nasa.gov/image.jpg''\<rparr>"
  "getNeoFeed world_ok ''2024-01-01'' ''2024-01-05'' = Inr feed_single"
  by (simp_all add: world_ok_def getCityLocation_def getIssNow_def getSpaceXNext_def
        getApod_def getNeoFeed_def timed_def js_Number_eval)

text \<open>
  Claim C3. When the geocoding request returns no candidate for the city, the run ends
  with exit code 1, no request other than the geocoding one is sent and
  \<open>briefing.json\<close> is not written; and when any of the five adapters fails, the run
  ends with exit code 1 and no briefing is written.
\<close>

theorem main_aborts_on_adapter_failure:
  assumes parse: "parseArgs (today_utc w) argv = Inr a"
  shows "(nominatim_search w (arg_city a) = Some (Response st []) \<longrightarrow>
            exit_code w argv = 1 \<and> set (events w argv) \<subseteq> {Request Nominatim_search}) \<and>
         ((\<exists>e. getCityLocation w (arg_city a) = Inl e) \<or> (\<exists>e. getIssNow w = Inl e) \<or>
          (\<exists>e. getSpaceXNext w = Inl e) \<or> (\<exists>e. getApod w (arg_date a) = Inl e) \<or>
          (\<exists>s d e. neo_date_range (arg_days a) (arg_date a) = Inr (s, d) \<and>
                     getNeoFeed w s d = Inl e) \<longrightarrow>
            exit_code w argv = 1 \<and> (\<forall>b. Write_briefing b \<notin> set (events w argv)))"
proof (intro conjI impI)
  assume none: "nominatim_search w (arg_city a) = Some (Response st [])"
  then have "\<exists>e. getCityLocation w (arg_city a) = Inl e"
    by (simp add: getCityLocation_def timed_def)
  then obtain e where e: "getCityLocation w (arg_city a) = Inl e" ..
  show "exit_code w argv = 1"
    by (simp add: exit_code_def main_body_def parse e split: sum.splits prod.splits)
  show "set (events w argv) \<subseteq> {Request Nominatim_search}"
    by (simp add: events_def main_body_def parse e split: sum.splits prod.splits)
next
  assume failing:
    "(\<exists>e. getCityLocation w (arg_city a) = Inl e) \<or> (\<exists>e. getIssNow w = Inl e) \<or>
     (\<exists>e. getSpaceXNext w = Inl e) \<or> (\<exists>e. getApod w (arg_date a) = Inl e) \<or>
     (\<exists>s d e. neo_date_range (arg_days a) (arg_date a) = Inr (s, d) \<and>
                getNeoFeed w s d = Inl e)"
  then show "exit_code w argv = 1"
    by (auto simp: exit_code_def main_body_def parse Let_def split: sum.splits prod.splits)
  from failing show "\<forall>b. Write_briefing b \<notin> set (events w argv)"
    by (auto simp: events_def main_body_def parse Let_def all_requests_def
          split: sum.splits prod.splits)
qed

theorem main_aborts_on_adapter_failure_witness:
  "parseArgs (today_utc world_no_city) argv_days_5 = Inr args_days_5 \<and>
   nominatim_search world_no_city (arg_city args_days_5) = Some (Response 200 []) \<and>
   exit_code world_no_city argv_days_5 = 1 \<and>
   events world_no_city argv_days_5 = [Request Nominatim_search] \<and>
   getIssNow world_iss_down = Inl (Failed ISS_now) \<and>
   exit_code world_iss_down argv_days_5 = 1 \<and>
   events world_iss_down argv_days_5 = all_requests"
proof -
  have p1: "parseArgs (today_utc world_no_city) argv_days_5 = Inr args_days_5"
    by (simp add: world_no_city_def world_ok_def parse_days_5)
  have n1: "nominatim_search world_no_city (arg_city args_days_5) = Some (Response 200 [])"
    by (simp add: world_no_city_def)
  have c1: "getCityLocation world_no_city ''Pune'' = Inl (City_not_found ''Pune'')"
    by (simp add: world_no_city_def getCityLocation_def timed_def)
  have e1: "events world_no_city argv_days_5 = [Request Nominatim_search]"
    by (simp add: events_def main_body_def p1 args_days_5_def range_days_5 c1)
  have p2: "parseArgs (today_utc world_iss_down) argv_days_5 = Inr args_days_5"
    by (simp add: world_iss_down_def world_ok_def parse_days_5)
  have c2: "getCityLocation world_iss_down ''Pune'' = getCityLocation world_ok ''Pune''"
    by (simp add: world_iss_down_def getCityLocation_def)
  have i2: "getIssNow world_iss_down = Inl (Failed ISS_now)"
    by (simp add: world_iss_down_def getIssNow_def timed_def)
  have e2: "events world_iss_down argv_days_5 = all_requests"
    by (simp add: events_def main_body_def p2 args_days_5_def range_days_5 c2 adapters_ok i2)
  from main_aborts_on_adapter_failure [OF p1, of 200] n1
  have x1: "exit_code world_no_city argv_days_5 = 1" by blast
  from main_aborts_on_adapter_failure [OF p2, of 200] i2
  have x2: "exit_code world_iss_down argv_days_5 = 1" by blast
  from p1 n1 x1 e1 i2 x2 e2 show ?thesis by (intro conjI)
qed



end
